theory Spec2Isabelle
  imports Complex_Main
begin

section \<open>Values shared by the whole pipeline\<close>

text \<open>
  The module \<^verbatim>\<open>seas/ica.py\<close> works on NumPy arrays. A two-dimensional array is modelled by
  its shape and its entries, so that an array with no row or no column keeps the other
  dimension, as NumPy does. Entries are real numbers: rounding of the floating-point
  arithmetic is not modelled, and the not-a-number value is written out as a branch of its
  own wherever the source can produce it.
\<close>

datatype error =
    KeyError
  | IndexError
  | ValueError
  | TypeError
  | AssertionError
  | UnboundLocalError
  | ZeroDivisionError
  | LinAlgError
  | Exception_not_supported string

definition and_then :: "error + 'a \<Rightarrow> ('a \<Rightarrow> error + 'b) \<Rightarrow> error + 'b" where
  "and_then m f = (case m of Inl e \<Rightarrow> Inl e | Inr v \<Rightarrow> f v)"

record mat =
  nrows :: nat
  ncols :: nat
  cell :: "nat \<Rightarrow> nat \<Rightarrow> real"

record movie =
  frames :: nat
  height :: nat
  width :: nat
  voxel :: "nat \<Rightarrow> nat \<Rightarrow> nat \<Rightarrow> real"

definition of_rows :: "nat \<Rightarrow> real list list \<Rightarrow> mat" where
  "of_rows k rs = \<lparr>nrows = length rs, ncols = k, cell = (\<lambda>i j. rs ! i ! j)\<rparr>"

definition column :: "mat \<Rightarrow> nat \<Rightarrow> real list" where
  "column m j = map (\<lambda>i. cell m i j) [0..<nrows m]"

definition mat_T :: "mat \<Rightarrow> mat" where
  "mat_T m = \<lparr>nrows = ncols m, ncols = nrows m, cell = (\<lambda>i j. cell m j i)\<rparr>"

text \<open>\<^verbatim>\<open>a[:, idx]\<close> with an integer index array: IndexError when an index is out of bounds.\<close>

definition take_columns :: "mat \<Rightarrow> nat list \<Rightarrow> error + mat" where
  "take_columns m idx =
     (if list_all (\<lambda>j. j < ncols m) idx
      then Inr \<lparr>nrows = nrows m, ncols = length idx, cell = (\<lambda>i j. cell m i (idx ! j))\<rparr>
      else Inl IndexError)"

text \<open>\<^verbatim>\<open>a[idx]\<close> on a one-dimensional array.\<close>

definition take_entries :: "'a list \<Rightarrow> nat list \<Rightarrow> error + 'a list" where
  "take_entries xs idx =
     (if list_all (\<lambda>j. j < length xs) idx then Inr (map (\<lambda>j. xs ! j) idx) else Inl IndexError)"

text \<open>\<^verbatim>\<open>a[:, ::-1]\<close> and \<^verbatim>\<open>a[:, :k]\<close>.\<close>

definition reverse_columns :: "mat \<Rightarrow> mat" where
  "reverse_columns m = m\<lparr>cell := (\<lambda>i j. cell m i (ncols m - 1 - j))\<rparr>"

definition first_columns :: "mat \<Rightarrow> nat \<Rightarrow> mat" where
  "first_columns m k = m\<lparr>ncols := min k (ncols m)\<rparr>"

text \<open>
  A Python slice \<^verbatim>\<open>a[start:stop]\<close> of a sequence of \<open>n\<close> items: a missing bound is the
  end of the sequence, a negative bound counts from the end, and both are clamped to the
  sequence. The result is the pair of the first index and the index after the last.
\<close>

definition slice_bound :: "nat \<Rightarrow> int \<Rightarrow> int" where
  "slice_bound n b = (if b < 0 then max (b + int n) 0 else min b (int n))"

definition slice_range :: "nat \<Rightarrow> int option \<Rightarrow> int option \<Rightarrow> nat \<times> nat" where
  "slice_range n start stop =
     (let lo = (case start of None \<Rightarrow> 0 | Some s \<Rightarrow> slice_bound n s);
          hi = (case stop of None \<Rightarrow> int n | Some e \<Rightarrow> slice_bound n e)
      in (nat lo, nat (max lo hi)))"

definition slice_len :: "nat \<Rightarrow> int option \<Rightarrow> int option \<Rightarrow> nat" where
  "slice_len n start stop = (case slice_range n start stop of (lo, hi) \<Rightarrow> hi - lo)"

definition slice_list :: "'a list \<Rightarrow> int option \<Rightarrow> int option \<Rightarrow> 'a list" where
  "slice_list xs start stop =
     (case slice_range (length xs) start stop of (lo, hi) \<Rightarrow> take (hi - lo) (drop lo xs))"

definition amean :: "real list \<Rightarrow> real" where
  "amean xs = sum_list xs / real (length xs)"

subsection \<open>External collaborators\<close>

text \<open>
  The numerical solvers, the noise classifier and the filters live in other modules and
  libraries. They are parameters of the model: every theorem below holds for whatever
  they compute. A floating-point number that may be not-a-number is a \<open>real option\<close>,
  with \<open>None\<close> for not-a-number.

  \<open>polyfit\<close> is \<^verbatim>\<open>np.polyfit(x, y, deg)\<close> for \<open>deg = 2\<close>: its three coefficients, highest
  power first. \<open>array_equals_string\<close> is the truth value that Python takes of
  \<^verbatim>\<open>array == string\<close>: NumPy up to 1.24 answers with the scalar \<^verbatim>\<open>False\<close>; from 1.25 on the
  comparison is made entry by entry, and the truth value of an array of two or more entries
  is a ValueError.
\<close>

record collaborators =
  svd :: "string \<Rightarrow> mat \<Rightarrow> error + (mat \<times> real list)"
  polyfit :: "real list \<Rightarrow> real option list \<Rightarrow> nat \<Rightarrow>
                error + (real option \<times> real option \<times> real option)"
  array_equals_string :: "int list \<Rightarrow> string \<Rightarrow> error + bool"
  fastica :: "nat \<Rightarrow> nat \<Rightarrow> mat option \<Rightarrow> bool \<Rightarrow> mat \<Rightarrow> error + (mat \<times> mat)"
  sort_noise :: "mat \<Rightarrow> bool list \<times> real"
  lag_n_autocorr :: "mat \<Rightarrow> nat \<Rightarrow> real list"
  butterworth :: "real list \<Rightarrow> real option \<Rightarrow> real option \<Rightarrow> real option \<Rightarrow> real list"
  wavelet_noiseFilter :: "real list \<Rightarrow> real \<Rightarrow> real \<Rightarrow> real list"

subsection \<open>The components dictionary\<close>

text \<open>
  The dictionary \<^verbatim>\<open>components\<close> that \<^verbatim>\<open>project\<close> returns and \<^verbatim>\<open>rebuild\<close> reads. Keys that
  only one path of \<^verbatim>\<open>project\<close> writes, that a later curation step attaches, or whose
  presence the code tests, are optional. \<open>svd_eigval\<close> holds a reference into the array
  store, because the array it names is shared with a local variable of \<^verbatim>\<open>project\<close>.
\<close>

record components =
  mean :: "real list"
  roimask :: "mat option"
  shape :: "nat \<times> nat \<times> nat"
  eig_mix :: mat
  timecourses :: mat
  eig_vec :: mat
  n_components :: nat
  lag1 :: "real list"
  noise_components :: "bool list option"
  cutoff :: "real option"
  artifact_components :: "int list option"
  masks :: "mat option"
  svd_eigval :: "nat option"
  increased_cutoff :: "nat option"
  lag1_full :: "real list option"
  svd_multiplier :: "nat option"
  svd_cutoff :: "nat option"
  flipped :: "int list option"
  residuals_spatial :: "mat option"
  residuals_temporal :: "real list option"
  project_meta_n_components :: "nat option"

section \<open>The mean-signal filter dispatcher\<close>

text \<open>
  \<^verbatim>\<open>filter_mean(mean, filter_method, fps, low_cutoff, high_cutoff)\<close>, branch by branch. The
  wavelet branch divides one by the low cutoff, which raises for a zero cutoff. The last
  branch is \<^verbatim>\<open>raise Exception("Filter method '...' not supported! ...")\<close>; the error value
  keeps the name of the method.
\<close>

definition filter_mean ::
  "collaborators \<Rightarrow> real list \<Rightarrow> string \<Rightarrow> real \<Rightarrow> real \<Rightarrow> real \<Rightarrow> error + real list" where
  "filter_mean ext mean_tc method_name fps_v low_cutoff high_cutoff =
     (if method_name = ''butterworth'' then
        Inr (butterworth ext mean_tc (Some fps_v) (Some low_cutoff) None)
      else if method_name = ''butterworth_lowpass'' then
        Inr (butterworth ext mean_tc (Some fps_v) None (Some low_cutoff))
      else if method_name = ''butterworth_bandpass'' then
        Inr (butterworth ext mean_tc (Some fps_v) (Some low_cutoff) (Some high_cutoff))
      else if method_name = ''wavelet'' then
        (if low_cutoff = 0 then Inl ZeroDivisionError
         else Inr (wavelet_noiseFilter ext mean_tc fps_v (1 / low_cutoff)))
      else if method_name = ''constant'' then
        Inr (map (\<lambda>z. z + amean mean_tc) (replicate (length mean_tc) 0))
      else
        Inl (Exception_not_supported method_name))"

section \<open>The reconstruction engine\<close>

text \<open>
  The parameter \<^verbatim>\<open>artifact_components\<close> of \<^verbatim>\<open>rebuild\<close> is \<^verbatim>\<open>None\<close> (the default), the string
  \<^verbatim>\<open>'none'\<close>, or an array.
\<close>

datatype artifact_arg = Not_given | String_none | Given "int list"

record rebuild_options =
  t_start :: "int option"
  t_stop :: "int option"
  apply_mean_filter :: bool
  mlow :: real
  mhigh :: real
  apply_component_filter :: bool
  chigh :: real
  apply_masked_mean :: bool
  filter_method :: string
  fps :: real
  include_noise :: bool

text \<open>The defaults of the signature of \<^verbatim>\<open>rebuild\<close>, and the names of its parameters.\<close>

definition rebuild_defaults :: rebuild_options where
  "rebuild_defaults =
     \<lparr>t_start = None, t_stop = None, apply_mean_filter = True, mlow = 0.5, mhigh = 1.0,
      apply_component_filter = False, chigh = 1.0, apply_masked_mean = False,
      filter_method = ''butterworth_highpass'', fps = 7.5, include_noise = True\<rparr>"

definition rebuild_parameters :: "string list" where
  "rebuild_parameters =
     [''components'', ''artifact_components'', ''t_start'', ''t_stop'', ''apply_mean_filter'',
      ''mlow'', ''mhigh'', ''apply_component_filter'', ''chigh'', ''apply_masked_mean'',
      ''filter_method'', ''fps'', ''include_noise'']"

subsection \<open>Which components are excluded (lines 373 to 383)\<close>

text \<open>
  \<^verbatim>\<open>artifact_components += components['noise_components']\<close> adds the labels entry by entry
  (a one-entry label array is broadcast, any other length mismatch is a ValueError), and
  the next line sets every entry above one to one.
\<close>

definition add_noise_labels :: "int list \<Rightarrow> bool list \<Rightarrow> error + int list" where
  "add_noise_labels ac noise =
     (if length noise = length ac then Inr (map (\<lambda>(a, b). a + of_bool b) (zip ac noise))
      else if length noise = 1 then Inr (map (\<lambda>a. a + of_bool (noise ! 0)) ac)
      else Inl ValueError)"

definition clamp_to_one :: "int list \<Rightarrow> int list" where
  "clamp_to_one ac = map (\<lambda>a. if a > 1 then 1 else a) ac"

text \<open>
  The \<^verbatim>\<open>if / elif / elif\<close> chain of \<^verbatim>\<open>rebuild\<close>, in the order of the source. A passed array
  meets the test \<^verbatim>\<open>artifact_components == 'none'\<close> of line 375 first, whose truth value is
  NumPy's to give.
\<close>

definition resolve_artifact_components ::
  "collaborators \<Rightarrow> components \<Rightarrow> artifact_arg \<Rightarrow> bool \<Rightarrow> error + int list" where
  "resolve_artifact_components ext c arg incl_noise =
     (case arg of
        Not_given \<Rightarrow>
          (case artifact_components c of None \<Rightarrow> Inl KeyError | Some stored \<Rightarrow> Inr stored)
      | String_none \<Rightarrow> Inr (replicate (n_components c) 0)
      | Given ac \<Rightarrow>
          and_then (array_equals_string ext ac ''none'') (\<lambda>is_none.
            if is_none then Inr (replicate (n_components c) 0)
            else if \<not> incl_noise \<and> noise_components c \<noteq> None then
              and_then (add_noise_labels ac (the (noise_components c)))
                (\<lambda>summed. Inr (clamp_to_one summed))
            else Inr ac))"

text \<open>\<^verbatim>\<open>np.where(artifact_components == 0)[0]\<close>.\<close>

definition reconstruct_indices :: "int list \<Rightarrow> nat list" where
  "reconstruct_indices ac = filter (\<lambda>i. ac ! i = 0) [0..<length ac]"

text \<open>
  The sibling \<^verbatim>\<open>rebuild_mean_roi_timecourse\<close> (lines 597 to 602) resolves the same vector
  from a copy of the stored key, and there the noise labels are added by an \<^verbatim>\<open>if\<close> of its
  own. Without its flag \<^verbatim>\<open>filter\<close>, or without the key, no vector is resolved (\<open>None\<close>)
  and every component is used.
\<close>

definition roi_timecourse_artifact_components ::
  "components \<Rightarrow> bool \<Rightarrow> bool \<Rightarrow> (error + int list) option" where
  "roi_timecourse_artifact_components c filter_flag incl_noise =
     (if filter_flag \<and> artifact_components c \<noteq> None then
        Some (if \<not> incl_noise \<and> noise_components c \<noteq> None then
                and_then (add_noise_labels (the (artifact_components c))
                            (the (noise_components c)))
                  (\<lambda>summed. Inr (clamp_to_one summed))
              else Inr (the (artifact_components c)))
      else None)"

subsection \<open>Nothing selected (lines 385 to 390)\<close>

definition zeros_movie :: "nat \<Rightarrow> nat \<Rightarrow> nat \<Rightarrow> movie" where
  "zeros_movie t x y = \<lparr>frames = t, height = x, width = y, voxel = (\<lambda>f i j. 0)\<rparr>"

definition slice_frames :: "movie \<Rightarrow> int option \<Rightarrow> int option \<Rightarrow> movie" where
  "slice_frames mv start stop =
     (case slice_range (frames mv) start stop of
        (lo, hi) \<Rightarrow> mv\<lparr>frames := hi - lo, voxel := (\<lambda>f. voxel mv (lo + f))\<rparr>)"

subsection \<open>The selected components (lines 392 to 474)\<close>

text \<open>\<^verbatim>\<open>np.where(roimask.flat == 1)\<close>: the active pixels in row-major order.\<close>

definition maskind :: "mat \<Rightarrow> nat list" where
  "maskind rm =
     filter (\<lambda>p. cell rm (p div ncols rm) (p mod ncols rm) = 1) [0..<nrows rm * ncols rm]"

definition check_eig_vec_size :: "components \<Rightarrow> error + nat list option" where
  "check_eig_vec_size c =
     (case shape c of
        (t, x, y) \<Rightarrow>
          (case roimask c of
             None \<Rightarrow> if nrows (eig_vec c) = x * y then Inr None else Inl AssertionError
           | Some rm \<Rightarrow>
               if nrows (eig_vec c) = length (maskind rm) then Inr (Some (maskind rm))
               else Inl AssertionError))"

text \<open>
  Lines 405 to 412. The local name \<^verbatim>\<open>eig_mix\<close> is bound inside this \<^verbatim>\<open>if\<close> only: the result
  is \<open>None\<close> when the name stays unbound. The filtered time course of a component is
  stored in a row of the length of the time axis.
\<close>

definition filter_component_timecourses ::
  "collaborators \<Rightarrow> components \<Rightarrow> rebuild_options \<Rightarrow> error + mat option" where
  "filter_component_timecourses ext c opts =
     (if apply_component_filter opts then
        (let tcs = mat_T (eig_mix c);
             lpf = map (\<lambda>i. butterworth ext (column (eig_mix c) i) None None (Some (chigh opts)))
                     [0..<nrows tcs]
         in if list_all (\<lambda>r. length r = ncols tcs \<or> length r = 1) lpf then
              Inr (Some (mat_T \<lparr>nrows = nrows tcs, ncols = ncols tcs,
                     cell = (\<lambda>i j. if length (lpf ! i) = 1 then lpf ! i ! 0 else lpf ! i ! j)\<rparr>))
            else Inl ValueError)
      else Inr None)"

text \<open>Reading the local name \<^verbatim>\<open>eig_mix\<close>.\<close>

definition read_local :: "'a option \<Rightarrow> error + 'a" where
  "read_local v = (case v of None \<Rightarrow> Inl UnboundLocalError | Some m \<Rightarrow> Inr m)"

text \<open>
  Line 431: the product of the kept spatial factors with the kept temporal factors of the
  time window, one row per frame.
\<close>

definition rebuild_product :: "mat \<Rightarrow> mat \<Rightarrow> nat list \<Rightarrow> int \<Rightarrow> int \<Rightarrow> error + mat" where
  "rebuild_product ev em idx ts te =
     and_then (take_columns ev idx) (\<lambda>evs.
     and_then (take_columns em idx) (\<lambda>ems.
       (case slice_range (nrows em) (Some ts) (Some te) of
          (lo, hi) \<Rightarrow>
            Inr \<lparr>nrows = hi - lo, ncols = nrows ev,
                 cell = (\<lambda>f p. sum_list (map (\<lambda>j. cell evs p j * cell ems (lo + f) j)
                                             [0..<length idx]))\<rparr>)))"

text \<open>
  A column \<^verbatim>\<open>v[:, None]\<close> added to, or stored into, an array of \<open>len\<close> rows: it fits when
  it has \<open>len\<close> entries, is repeated when it has one, and is a ValueError otherwise.
\<close>

definition column_for_rows :: "real list \<Rightarrow> nat \<Rightarrow> error + (nat \<Rightarrow> real)" where
  "column_for_rows vs len =
     (if length vs = len then Inr (\<lambda>f. vs ! f)
      else if length vs = 1 then Inr (\<lambda>f. vs ! 0)
      else Inl ValueError)"

text \<open>Lines 434 to 462: the mean is added back, filtered or not, everywhere or under the masks.\<close>

definition mean_to_add ::
  "collaborators \<Rightarrow> components \<Rightarrow> rebuild_options \<Rightarrow> int \<Rightarrow> int \<Rightarrow> error + real list" where
  "mean_to_add ext c opts ts te =
     (if apply_mean_filter opts then
        and_then (filter_mean ext (mean c) (filter_method opts) (fps opts) (mlow opts) (mhigh opts))
          (\<lambda>mean_filtered. Inr (slice_list mean_filtered (Some ts) (Some te)))
      else Inr (slice_list (mean c) (Some ts) (Some te)))"

definition add_mean ::
  "collaborators \<Rightarrow> components \<Rightarrow> rebuild_options \<Rightarrow> nat list \<Rightarrow> int \<Rightarrow> int \<Rightarrow> mat \<Rightarrow> error + mat" where
  "add_mean ext c opts idx ts te data_r =
     (if apply_masked_mean opts then
        (case masks c of
           None \<Rightarrow> Inl KeyError
         | Some ms \<Rightarrow>
             and_then (take_columns ms idx) (\<lambda>kept.
               (let combined_mask = map (\<lambda>p. list_ex (\<lambda>j. cell kept p j \<noteq> 0) [0..<ncols kept])
                                      [0..<nrows kept]
                in and_then (mean_to_add ext c opts ts te) (\<lambda>vs.
                     if length combined_mask \<noteq> ncols data_r then Inl IndexError
                     else and_then (column_for_rows vs (nrows data_r)) (\<lambda>col.
                       Inr (data_r\<lparr>cell := (\<lambda>f p. cell data_r f p
                                             + (if combined_mask ! p then col f else 0))\<rparr>))))))
      else
        and_then (mean_to_add ext c opts ts te) (\<lambda>vs.
          and_then (column_for_rows vs (nrows data_r)) (\<lambda>col.
            Inr (data_r\<lparr>cell := (\<lambda>f p. cell data_r f p + col f)\<rparr>))))"

text \<open>
  Lines 466 to 474. Without a mask the rows are reshaped to \<^verbatim>\<open>(t_stop - t_start, x, y)\<close>, where
  a negative length is inferred by NumPy from the size of the array, which the other two
  lengths must divide; \<open>flat_cell\<close> reads the array in row-major order. With a mask the rows are scattered into an array
  of zeros of \<^verbatim>\<open>x * y\<close> rows and \<^verbatim>\<open>t_stop - t_start\<close> columns.
\<close>

definition flat_cell :: "mat \<Rightarrow> nat \<Rightarrow> real" where
  "flat_cell m q = cell m (q div ncols m) (q mod ncols m)"

fun position :: "nat list \<Rightarrow> nat \<Rightarrow> nat option" where
  "position [] p = None"
| "position (q # qs) p = (if q = p then Some 0 else map_option Suc (position qs p))"

definition unflatten :: "components \<Rightarrow> nat list option \<Rightarrow> int \<Rightarrow> mat \<Rightarrow> error + movie" where
  "unflatten c active t data_r =
     (case shape c of
        (t0, x, y) \<Rightarrow>
          (case active of
             None \<Rightarrow>
               (if t < 0 then
                  (if x * y = 0 \<or> (nrows data_r * ncols data_r) mod (x * y) \<noteq> 0
                   then Inl ValueError
                   else Inr \<lparr>frames = (nrows data_r * ncols data_r) div (x * y), height = x,
                             width = y,
                             voxel = (\<lambda>f i j. flat_cell data_r (f * (x * y) + i * y + j))\<rparr>)
                else if nrows data_r * ncols data_r = nat t * x * y then
                  Inr \<lparr>frames = nat t, height = x, width = y,
                       voxel = (\<lambda>f i j. flat_cell data_r (f * (x * y) + i * y + j))\<rparr>
                else Inl ValueError)
           | Some act \<Rightarrow>
               (if t < 0 then Inl ValueError
                else if \<not> list_all (\<lambda>p. p < x * y) act then Inl IndexError
                else if nrows data_r = nat t \<or> nrows data_r = 1 then
                  Inr \<lparr>frames = nat t, height = x, width = y,
                       voxel = (\<lambda>f i j. case position act (i * y + j) of
                                  None \<Rightarrow> 0
                                | Some q \<Rightarrow> cell data_r (if nrows data_r = 1 then 0 else f) q)\<rparr>
                else Inl ValueError)))"

definition rebuild_selected ::
  "collaborators \<Rightarrow> components \<Rightarrow> nat list \<Rightarrow> rebuild_options \<Rightarrow> error + movie" where
  "rebuild_selected ext c idx opts =
     and_then (check_eig_vec_size c) (\<lambda>active.
     and_then (filter_component_timecourses ext c opts) (\<lambda>local_eig_mix.
       (let ts = (case t_start opts of None \<Rightarrow> 0 | Some s \<Rightarrow> s)
        in and_then
             (case t_stop opts of
                None \<Rightarrow> and_then (read_local local_eig_mix) (\<lambda>em. Inr (int (nrows em)))
              | Some e \<Rightarrow> Inr e)
             (\<lambda>te.
                and_then (read_local local_eig_mix) (\<lambda>em.
                and_then (rebuild_product (eig_vec c) em idx ts te) (\<lambda>data_r.
                and_then (add_mean ext c opts idx ts te data_r) (\<lambda>with_mean.
                  unflatten c active (te - ts) with_mean)))))))"

text \<open>
  \<^verbatim>\<open>rebuild\<close> for a dictionary (loading one from a file name is the work of another module).
  Line 368 reads column 0 of \<^verbatim>\<open>eig_vec\<close>, an IndexError when there is no column.
\<close>

definition rebuild ::
  "collaborators \<Rightarrow> components \<Rightarrow> artifact_arg \<Rightarrow> rebuild_options \<Rightarrow> error + movie" where
  "rebuild ext c arg opts =
     (if ncols (eig_vec c) = 0 then Inl IndexError
      else
        and_then (resolve_artifact_components ext c arg (include_noise opts)) (\<lambda>ac.
          (case shape c of
             (t, x, y) \<Rightarrow>
               if reconstruct_indices ac = [] then
                 Inr (slice_frames (zeros_movie t x y) (t_start opts) (t_stop opts))
               else rebuild_selected ext c (reconstruct_indices ac) opts)))"

text \<open>
  A call of \<^verbatim>\<open>rebuild\<close> with keyword arguments: a keyword that is not a parameter of the
  function is a TypeError, raised before the body runs.
\<close>

definition call_rebuild ::
  "string list \<Rightarrow> collaborators \<Rightarrow> components \<Rightarrow> artifact_arg \<Rightarrow> rebuild_options \<Rightarrow> error + movie" where
  "call_rebuild keywords ext c arg opts =
     (if list_all (\<lambda>k. k \<in> set rebuild_parameters) keywords then rebuild ext c arg opts
      else Inl TypeError)"

section \<open>The decomposition entry point\<close>

subsection \<open>The linearity-transition estimator (lines 477 to 506)\<close>

text \<open>
  The estimator receives a reference to the caller's array. \<^verbatim>\<open>eig_val -= eig_val.min()\<close>
  writes into that array; \<^verbatim>\<open>eig_val = eig_val / eig_val.sum()\<close> builds a new array and binds
  the local name to it. The store maps a reference to the contents of its array.

  The minimum of an empty array is a ValueError. The shifted entries are not negative, so
  when they sum to zero all of them are zero and every quotient is 0/0, not a number
  (a division by zero raises nothing in NumPy). The fit is called on whatever the
  quotients are, and no comparison with not-a-number holds.
\<close>

type_synonym store = "nat \<Rightarrow> real list"

definition fadd :: "real option \<Rightarrow> real option \<Rightarrow> real option" where
  "fadd a b =
     (case a of None \<Rightarrow> None | Some u \<Rightarrow> (case b of None \<Rightarrow> None | Some v \<Rightarrow> Some (u + v)))"

definition fmul :: "real option \<Rightarrow> real option \<Rightarrow> real option" where
  "fmul a b =
     (case a of None \<Rightarrow> None | Some u \<Rightarrow> (case b of None \<Rightarrow> None | Some v \<Rightarrow> Some (u * v)))"

definition fgreater :: "real option \<Rightarrow> real option \<Rightarrow> bool" where
  "fgreater a b =
     (case a of None \<Rightarrow> False | Some u \<Rightarrow> (case b of None \<Rightarrow> False | Some v \<Rightarrow> u > v))"

text \<open>The quotient by a sum of the array; a zero divisor only meets zero dividends here.\<close>

definition fdivide :: "real \<Rightarrow> real \<Rightarrow> real option" where
  "fdivide a b = (if b = 0 then None else Some (a / b))"

definition amin :: "real list \<Rightarrow> real" where
  "amin xs = fold min (tl xs) (hd xs)"

definition cumsum :: "real option list \<Rightarrow> real option list" where
  "cumsum xs = map (\<lambda>k. foldl fadd (Some 0) (take (Suc k) xs)) [0..<length xs]"

text \<open>\<^verbatim>\<open>np.polyval\<close>: Horner's rule, for the three coefficients of the fit.\<close>

definition polyval ::
  "real option \<times> real option \<times> real option \<Rightarrow> real option \<Rightarrow> real option" where
  "polyval p x = (case p of (a, b, c) \<Rightarrow> fadd (fmul (fadd (fmul a x) b) x) c)"

text \<open>\<^verbatim>\<open>eig_val - eig_val.min()\<close>, the cumulative sum of the normalised array, and \<^verbatim>\<open>np.arange\<close>.\<close>

definition shift_to_zero :: "real list \<Rightarrow> real list" where
  "shift_to_zero ev = map (\<lambda>v. v - amin ev) ev"

definition cumulative_curve :: "real list \<Rightarrow> real option list" where
  "cumulative_curve shifted = cumsum (map (\<lambda>v. fdivide v (sum_list shifted)) shifted)"

definition component_index :: "real list \<Rightarrow> real list" where
  "component_index ev = map real [0..<length ev]"

definition approximate_svd_linearity_transition ::
  "collaborators \<Rightarrow> store \<Rightarrow> nat \<Rightarrow> (error + nat) \<times> store" where
  "approximate_svd_linearity_transition ext st r =
     (if st r = [] then (Inl ValueError, st)
      else
        (let shifted = shift_to_zero (st r);
             st' = st(r := shifted);
             eig_val_integrated = cumulative_curve shifted;
             x = component_index shifted
         in (case polyfit ext x eig_val_integrated 2 of
               Inl e \<Rightarrow> (Inl e, st')
             | Inr p \<Rightarrow>
                 (case filter (\<lambda>i. fgreater (eig_val_integrated ! i)
                                      (map (\<lambda>xi. polyval p (Some xi)) x ! i))
                         [0..<length x] of
                    [] \<Rightarrow> (Inl IndexError, st')
                  | transition # others \<Rightarrow> (Inr transition, st')))))"

subsection \<open>The adaptive component search (lines 137 to 176)\<close>

record search_result =
  found_eig_vec :: mat
  found_eig_mix :: mat
  found_noise :: "bool list"
  found_cutoff :: real
  found_n_components :: nat
  found_increased_cutoff :: nat

text \<open>
  \<^verbatim>\<open>p_signal = (1 - noise.sum() / noise.size) * 100\<close>. For an empty label array the quotient
  is not a number and the test \<^verbatim>\<open>p_signal < 75\<close> is false; the quotient by zero of the reals
  is zero, for which the test is false as well.
\<close>

definition p_signal :: "bool list \<Rightarrow> real" where
  "p_signal noise = (1 - real (length (filter id noise)) / real (length noise)) * 100"

text \<open>\<^verbatim>\<open>u[:n_components, :n_components]\<close>.\<close>

definition w_init :: "mat \<Rightarrow> nat \<Rightarrow> mat" where
  "w_init u n = u\<lparr>nrows := min n (nrows u), ncols := min n (ncols u)\<rparr>"

text \<open>
  The \<^verbatim>\<open>while True\<close> loop. Its state is the component count and the counter
  \<^verbatim>\<open>components['increased_cutoff']\<close>; \<open>t\<close> is \<^verbatim>\<open>shape[0]\<close>. A loop that never leaves has the
  value \<open>None\<close>.
\<close>

text \<open>Lines 169 to 176: the count grows by its half and is cut to \<^verbatim>\<open>shape[0]\<close>.\<close>

definition grow :: "nat \<Rightarrow> nat \<Rightarrow> nat" where
  "grow t n = (if n + n div 2 > t then t else n + n div 2)"

definition accepted ::
  "mat \<Rightarrow> mat \<Rightarrow> bool list \<Rightarrow> real \<Rightarrow> nat \<Rightarrow> nat \<Rightarrow> (error + search_result) option" where
  "accepted ev em noise cutoff_v n inc =
     Some (Inr \<lparr>found_eig_vec = ev, found_eig_mix = em, found_noise = noise,
                found_cutoff = cutoff_v, found_n_components = n,
                found_increased_cutoff = inc\<rparr>)"

partial_function (option) adaptive_search ::
  "collaborators \<Rightarrow> mat \<Rightarrow> mat \<Rightarrow> nat \<Rightarrow> nat \<Rightarrow> nat \<Rightarrow> nat \<Rightarrow> (error + search_result) option" where
  "adaptive_search ext vector u max_iter t n inc =
     (case fastica ext n max_iter (Some (w_init u n)) False vector of
        Inl e \<Rightarrow> Some (Inl e)
      | Inr (ev, em) \<Rightarrow>
          (case sort_noise ext (mat_T em) of
             (noise, cutoff_v) \<Rightarrow>
               if length noise = t then accepted ev em noise cutoff_v n inc
               else if p_signal noise < 75 then accepted ev em noise cutoff_v n inc
               else if n \<ge> t then accepted ev em noise cutoff_v n inc
               else
                 adaptive_search ext vector u max_iter t (grow t n) (inc + 1)))"

subsection \<open>The post-hoc crop (lines 178 to 204)\<close>

text \<open>
  \<^verbatim>\<open>eig_mix.std(axis=0)\<close> is the population standard deviation of every column, and
  \<^verbatim>\<open>np.argsort\<close> the indices in ascending order of their keys (equal keys are kept in their
  order here; NumPy's default sort leaves their order open).
\<close>

definition astd :: "real list \<Rightarrow> real" where
  "astd xs = sqrt (amean (map (\<lambda>v. (v - amean xs)\<^sup>2) xs))"

definition column_std :: "mat \<Rightarrow> real list" where
  "column_std m = map (\<lambda>j. astd (column m j)) [0..<ncols m]"

definition argsort :: "real list \<Rightarrow> nat list" where
  "argsort ks = sort_key (\<lambda>i. ks ! i) [0..<length ks]"

text \<open>
  \<^verbatim>\<open>int((noise.size - noise.sum()) * 1.25)\<close>: \<^verbatim>\<open>int\<close> drops the fraction of a non-negative
  number.
\<close>

definition reduced_n_components :: "bool list \<Rightarrow> nat" where
  "reduced_n_components noise =
     nat \<lfloor>real (length noise - length (filter id noise)) * 1.25\<rfloor>"

record crop_result =
  cropped_eig_vec :: mat
  cropped_eig_mix :: mat
  cropped_n_components :: nat
  cropped_noise :: "bool list"
  cropped_lag1_full :: "real list"

definition crop_excess ::
  "mat \<Rightarrow> mat \<Rightarrow> bool list \<Rightarrow> real list \<Rightarrow> nat \<Rightarrow> error + crop_result" where
  "crop_excess ev em noise lag_full n =
     (if reduced_n_components noise < n then
        (let ev_sort = argsort (column_std em)
         in and_then (take_columns ev ev_sort) (\<lambda>ev_sorted.
            and_then (take_columns em ev_sort) (\<lambda>em_sorted.
            and_then (take_entries noise ev_sort) (\<lambda>noise_sorted.
            and_then (take_entries lag_full ev_sort) (\<lambda>lag_sorted.
              Inr \<lparr>cropped_eig_vec =
                     first_columns (reverse_columns ev_sorted) (reduced_n_components noise),
                   cropped_eig_mix =
                     first_columns (reverse_columns em_sorted) (reduced_n_components noise),
                   cropped_n_components = reduced_n_components noise,
                   cropped_noise = take (reduced_n_components noise) (rev noise_sorted),
                   cropped_lag1_full = rev lag_sorted\<rparr>)))))
      else
        Inr \<lparr>cropped_eig_vec = ev, cropped_eig_mix = em, cropped_n_components = n,
             cropped_noise = noise, cropped_lag1_full = lag_full\<rparr>)"

subsection \<open>The fixed-count path (lines 209 to 247)\<close>

text \<open>\<^verbatim>\<open>np.argmax\<close>: the first index of the largest entry.\<close>

definition argmax :: "real list \<Rightarrow> nat" where
  "argmax xs = hd (filter (\<lambda>i. xs ! i = fold max (tl xs) (hd xs)) [0..<length xs])"

definition negate_column :: "mat \<Rightarrow> nat \<Rightarrow> mat" where
  "negate_column m i = m\<lparr>cell := (\<lambda>r j. if j = i then - cell m r j else cell m r j)\<rparr>"

text \<open>
  The loop \<^verbatim>\<open>for i in range(n_components)\<close> over the state \<^verbatim>\<open>(eig_vec, eig_mix, flipped)\<close>.
  Reading a column that does not exist is an IndexError, and the \<^verbatim>\<open>argmax\<close> of an empty
  column a ValueError.
\<close>

definition dominant_loading :: "mat \<Rightarrow> nat \<Rightarrow> real" where
  "dominant_loading m i = cell m (argmax (map abs (column m i))) i"

fun sign_fix :: "nat list \<Rightarrow> mat \<Rightarrow> mat \<Rightarrow> int list \<Rightarrow> error + (mat \<times> mat \<times> int list)" where
  "sign_fix [] ev em fl = Inr (ev, em, fl)"
| "sign_fix (i # rest) ev em fl =
     (if ncols ev \<le> i then Inl IndexError
      else if nrows ev = 0 then Inl ValueError
      else if dominant_loading ev i < 0 then
        (if ncols em \<le> i then Inl IndexError
         else sign_fix rest (negate_column ev i) (negate_column em i) (fl[i := - 1]))
      else sign_fix rest ev em fl)"

record fixed_result =
  fixed_eig_vec :: mat
  fixed_eig_mix :: mat
  fixed_flipped :: "int list"
  fixed_noise :: "bool list"
  fixed_cutoff :: real

text \<open>Lines 229 to 231: both factors in descending order of the deviation of the time courses.\<close>

definition order_by_std :: "mat \<Rightarrow> mat \<Rightarrow> error + (mat \<times> mat)" where
  "order_by_std ev em =
     (let ev_sort = argsort (column_std em)
      in and_then (take_columns ev ev_sort) (\<lambda>ev_sorted.
         and_then (take_columns em ev_sort) (\<lambda>em_sorted.
           Inr (reverse_columns ev_sorted, reverse_columns em_sorted))))"

definition normalize_components ::
  "collaborators \<Rightarrow> nat \<Rightarrow> mat \<Rightarrow> mat \<Rightarrow> error + fixed_result" where
  "normalize_components ext n ev em =
     and_then (order_by_std ev em) (\<lambda>(ev0, em0).
     and_then (sign_fix [0..<n] ev0 em0 (replicate n 1)) (\<lambda>(ev', em', fl).
       Inr \<lparr>fixed_eig_vec = ev', fixed_eig_mix = em', fixed_flipped = fl,
            fixed_noise = fst (sort_noise ext (mat_T em')),
            fixed_cutoff = snd (sort_noise ext (mat_T em'))\<rparr>))"

text \<open>The solver is run once more on the data cast to float64 when it raises a ValueError.\<close>

definition fixed_count_path ::
  "collaborators \<Rightarrow> mat \<Rightarrow> nat \<Rightarrow> nat \<Rightarrow> error + fixed_result" where
  "fixed_count_path ext vector n max_iter =
     and_then
       (case fastica ext n max_iter None False vector of
          Inl ValueError \<Rightarrow> fastica ext n max_iter None True vector
        | outcome \<Rightarrow> outcome)
       (\<lambda>(ev, em). normalize_components ext n ev em)"

subsection \<open>The adaptive path (lines 116 to 207)\<close>

text \<open>
  The eigenvalue array of the SVD is allocated at the reference \<open>r\<close>; the dictionary key
  \<^verbatim>\<open>svd_eigval\<close> and the local name \<^verbatim>\<open>ev\<close> both refer to it. The SVD is run once more with the
  \<^verbatim>\<open>gesvd\<close> driver when it raises a ValueError.
\<close>

definition run_svd :: "collaborators \<Rightarrow> mat \<Rightarrow> error + (mat \<times> real list)" where
  "run_svd ext vector =
     (case svd ext ''gesdd'' vector of
        Inl ValueError \<Rightarrow> svd ext ''gesvd'' vector
      | outcome \<Rightarrow> outcome)"

definition adaptive_path ::
  "collaborators \<Rightarrow> store \<Rightarrow> nat \<Rightarrow> components \<Rightarrow> mat \<Rightarrow> nat \<Rightarrow> nat \<Rightarrow>
     (error + (components \<times> mat \<times> mat \<times> store)) option" where
  "adaptive_path ext st r c vector multiplier max_iter =
     (case run_svd ext vector of
        Inl e \<Rightarrow> Some (Inl e)
      | Inr (u, ev) \<Rightarrow>
          (case approximate_svd_linearity_transition ext (st(r := ev)) r of
             (Inl e, st') \<Rightarrow> Some (Inl e)
           | (Inr cross_1, st') \<Rightarrow>
               (case adaptive_search ext vector u max_iter (fst (shape c))
                       (cross_1 * multiplier) 0 of
                  None \<Rightarrow> None
                | Some (Inl e) \<Rightarrow> Some (Inl e)
                | Some (Inr sr) \<Rightarrow>
                    (case crop_excess (found_eig_vec sr) (found_eig_mix sr) (found_noise sr)
                            (lag_n_autocorr ext (mat_T (found_eig_mix sr)) 1)
                            (found_n_components sr) of
                       Inl e \<Rightarrow> Some (Inl e)
                     | Inr cr \<Rightarrow>
                         Some (Inr
                           (c\<lparr>svd_eigval := Some r,
                              increased_cutoff := Some (found_increased_cutoff sr),
                              lag1_full := Some (cropped_lag1_full cr),
                              svd_multiplier := Some multiplier,
                              svd_cutoff := Some (found_n_components sr),
                              noise_components := Some (cropped_noise cr),
                              cutoff := Some (found_cutoff sr)\<rparr>,
                            cropped_eig_vec cr, cropped_eig_mix cr, st'))))))"

subsection \<open>Residual accounting and the returned dictionary (lines 249 to 299)\<close>

text \<open>
  The \<^verbatim>\<open>try\<close> block first calls \<^verbatim>\<open>rebuild(components, artifact_components='none',
  vector=True)\<close>. The arithmetic after the call (lines 264 to 278) is the parameter
  \<open>summarise\<close>, which may fail in any way; it is reached only when the call returns.
\<close>

definition residual_accounting ::
  "collaborators \<Rightarrow> (mat \<Rightarrow> movie \<Rightarrow> error + mat \<times> real list) \<Rightarrow> components \<Rightarrow> mat \<Rightarrow>
     error + mat \<times> real list" where
  "residual_accounting ext summarise c vector =
     and_then
       (call_rebuild [''artifact_components'', ''vector''] ext c String_none rebuild_defaults)
       (\<lambda>rebuilt. summarise vector rebuilt)"

text \<open>
  The end of \<^verbatim>\<open>project\<close>. The second component of the result is the exception that the
  handler \<^verbatim>\<open>except Exception as e\<close> printed, if any. Of the metadata only the component count
  is kept; the time stamps are not modelled.
\<close>

definition assign_factors :: "collaborators \<Rightarrow> components \<Rightarrow> mat \<Rightarrow> mat \<Rightarrow> components" where
  "assign_factors ext c ev em =
     c\<lparr>eig_mix := em, timecourses := mat_T em, eig_vec := ev, n_components := ncols ev,
       lag1 := lag_n_autocorr ext (mat_T em) 1\<rparr>"

definition finish_project ::
  "collaborators \<Rightarrow> (mat \<Rightarrow> movie \<Rightarrow> error + mat \<times> real list) \<Rightarrow> bool \<Rightarrow> components \<Rightarrow> mat \<Rightarrow>
     mat \<Rightarrow> mat \<Rightarrow> components \<times> error option" where
  "finish_project ext summarise calc_residuals c vector ev em =
     (let c1 = assign_factors ext c ev em
      in if calc_residuals then
           (case residual_accounting ext summarise c1 vector of
              Inl e \<Rightarrow> (c1\<lparr>project_meta_n_components := Some (ncols ev)\<rparr>, Some e)
            | Inr (spatial, temporal) \<Rightarrow>
                (c1\<lparr>residuals_spatial := Some spatial, residuals_temporal := Some temporal,
                    project_meta_n_components := Some (ncols ev)\<rparr>, None))
         else (c1\<lparr>project_meta_n_components := Some (ncols ev)\<rparr>, None))"

subsection \<open>\<^verbatim>\<open>project\<close> (lines 87 to 115 and the two paths)\<close>

definition empty_mat :: mat where
  "empty_mat = \<lparr>nrows = 0, ncols = 0, cell = (\<lambda>i j. 0)\<rparr>"

text \<open>
  \<^verbatim>\<open>components = {}\<close> followed by the three assignments of lines 106 to 108. A key that is
  always assigned before \<^verbatim>\<open>project\<close> returns holds a placeholder until then.
\<close>

definition new_components :: "real list \<Rightarrow> mat option \<Rightarrow> nat \<times> nat \<times> nat \<Rightarrow> components" where
  "new_components mean_v roimask_v shape_v =
     \<lparr>mean = mean_v, roimask = roimask_v, shape = shape_v, eig_mix = empty_mat,
      timecourses = empty_mat, eig_vec = empty_mat, n_components = 0, lag1 = [],
      noise_components = None, cutoff = None, artifact_components = None, masks = None,
      svd_eigval = None, increased_cutoff = None, lag1_full = None, svd_multiplier = None,
      svd_cutoff = None, flipped = None, residuals_spatial = None,
      residuals_temporal = None, project_meta_n_components = None\<rparr>"

definition crop_to_roimask :: "mat \<Rightarrow> mat option \<Rightarrow> error + mat" where
  "crop_to_roimask vector roimask_v =
     (case roimask_v of
        None \<Rightarrow> Inr vector
      | Some rm \<Rightarrow>
          if nrows rm * ncols rm = nrows vector then
            and_then (take_columns (mat_T vector) (maskind rm)) (\<lambda>kept. Inr (mat_T kept))
          else Inl AssertionError)"

definition column_means :: "mat \<Rightarrow> real list" where
  "column_means m = map (\<lambda>j. amean (column m j)) [0..<ncols m]"

definition subtract_from_rows :: "mat \<Rightarrow> real list \<Rightarrow> mat" where
  "subtract_from_rows m vs = m\<lparr>cell := (\<lambda>i j. cell m i j - vs ! j)\<rparr>"

text \<open>Lines 92 to 103: the optional crop to the mask, and the removal of the mean.\<close>

definition prepare :: "mat \<Rightarrow> mat option \<Rightarrow> error + (real list \<times> mat)" where
  "prepare vector roimask_v =
     and_then (crop_to_roimask vector roimask_v) (\<lambda>cropped.
       Inr (column_means cropped, subtract_from_rows cropped (column_means cropped)))"

text \<open>
  The branch on \<^verbatim>\<open>n_components is None\<close> (line 116). Both paths hand over the dictionary
  so far, the two factors and the store.
\<close>

definition decompose ::
  "collaborators \<Rightarrow> store \<Rightarrow> nat \<Rightarrow> components \<Rightarrow> mat \<Rightarrow> nat option \<Rightarrow> nat \<Rightarrow> nat \<Rightarrow>
     (error + (components \<times> mat \<times> mat \<times> store)) option" where
  "decompose ext st r c centred n_components_arg multiplier max_iter =
     (case n_components_arg of
        None \<Rightarrow> adaptive_path ext st r c centred multiplier max_iter
      | Some n \<Rightarrow>
          (case fixed_count_path ext centred n max_iter of
             Inl e \<Rightarrow> Some (Inl e)
           | Inr fr \<Rightarrow>
               Some (Inr (c\<lparr>noise_components := Some (fixed_noise fr),
                            cutoff := Some (fixed_cutoff fr),
                            flipped := Some (fixed_flipped fr)\<rparr>,
                          fixed_eig_vec fr, fixed_eig_mix fr, st))))"

text \<open>
  \<^verbatim>\<open>project\<close>. The result is \<open>None\<close> when the adaptive search never leaves its loop, an
  error when an exception leaves the function, and otherwise the dictionary, the store
  and the exception that the residual handler printed, if any.
\<close>

definition project ::
  "collaborators \<Rightarrow> (mat \<Rightarrow> movie \<Rightarrow> error + mat \<times> real list) \<Rightarrow> store \<Rightarrow> nat \<Rightarrow> mat \<Rightarrow>
     nat \<times> nat \<times> nat \<Rightarrow> mat option \<Rightarrow> nat option \<Rightarrow> nat option \<Rightarrow> bool \<Rightarrow> nat \<Rightarrow>
     (error + (components \<times> store \<times> error option)) option" where
  "project ext summarise st r vector shape_v roimask_v n_components_arg svd_multiplier_arg
      calc_residuals max_iter =
     (case prepare vector roimask_v of
        Inl e \<Rightarrow> Some (Inl e)
      | Inr (mean_v, centred) \<Rightarrow>
          (case decompose ext st r (new_components mean_v roimask_v shape_v) centred
                  n_components_arg (case svd_multiplier_arg of None \<Rightarrow> 5 | Some m \<Rightarrow> m)
                  max_iter of
             None \<Rightarrow> None
           | Some (Inl e) \<Rightarrow> Some (Inl e)
           | Some (Inr (c1, ev, em, st')) \<Rightarrow>
               (case finish_project ext summarise calc_residuals c1 centred ev em of
                  (c2, report) \<Rightarrow> Some (Inr (c2, st', report)))))"

subsection \<open>The order of influence\<close>

text \<open>
  \<^verbatim>\<open>a[ev_sort][::-1]\<close> lists the entries of \<open>a\<close> in the order \<open>influence_order\<close> of the keys
  \<^verbatim>\<open>eig_mix.std(axis=0)\<close>: the sorted indices, last first.
\<close>

definition influence_order :: "real list \<Rightarrow> nat list" where
  "influence_order ks = rev (argsort ks)"

text \<open>
  The reduced count as the specification words it, for comparison with the code:
  \<open>1.25\<close> times the number of components not labelled noise, rounded to the nearest
  integer.
\<close>

definition rounded_n_components :: "bool list \<Rightarrow> nat" where
  "rounded_n_components noise =
     nat (round (1.25 * real (length (filter (\<lambda>b. \<not> b) noise))))"

subsection \<open>The outcome of the sign loop\<close>

text \<open>
  The factor \<open>m\<close> after the sign loop has visited the columns \<open>cols\<close> of the spatial
  factor \<open>ev\<close>: the columns whose dominant loading was negative are negated.
\<close>

definition flip_columns :: "nat list \<Rightarrow> mat \<Rightarrow> mat \<Rightarrow> mat" where
  "flip_columns cols ev m =
     m\<lparr>cell := (\<lambda>r j. if j \<in> set cols \<and> dominant_loading ev j < 0 then - cell m r j
                        else cell m r j)\<rparr>"

section \<open>The words of the specification\<close>

text \<open>
  The notions in which the properties below are stated, written from the specification
  and not from the code: the cumulative energy curve of a spectrum (shifted so that its
  minimum is zero, normalised to sum one, summed up to an index; not a number when the
  shifted spectrum sums to zero), a strict crossing of that curve over a parabola, the
  first location of the maximal absolute value of a loading vector, and the variance of a
  time course.
\<close>

definition energy_curve :: "real list \<Rightarrow> nat \<Rightarrow> real option" where
  "energy_curve ev i =
     (if (\<Sum>v\<leftarrow>ev. v - Min (set ev)) = 0 then None
      else Some ((\<Sum>v\<leftarrow>take (Suc i) ev. v - Min (set ev)) / (\<Sum>v\<leftarrow>ev. v - Min (set ev))))"

definition crosses ::
  "real list \<Rightarrow> real option \<times> real option \<times> real option \<Rightarrow> nat \<Rightarrow> bool" where
  "crosses ev p i =
     (\<exists>u a b c. energy_curve ev i = Some u \<and> p = (Some a, Some b, Some c)
                \<and> u > a * (real i)\<^sup>2 + b * real i + c)"


definition variance :: "real list \<Rightarrow> real" where
  "variance xs =
     (\<Sum>v\<leftarrow>xs. (v - sum_list xs / real (length xs))\<^sup>2) / real (length xs)"

section \<open>Sample inputs\<close>

text \<open>
  Concrete collaborators and inputs on which the theorems below are evaluated. The sample
  spectrum is \<open>[7, 4, 2, 1, 1]\<close>; the sample fit returns the coefficients of the
  least-squares parabola through the cumulative curve of that spectrum. The sample
  comparison of an array with a string is that of NumPy up to 1.24; \<open>elementwise_numpy\<close>
  has that of NumPy from 1.25 on.
\<close>

definition sample_collaborators :: collaborators where
  "sample_collaborators =
     \<lparr>svd = (\<lambda>driver v. Inr (v, [7, 4, 2, 1, 1])),
      polyfit = (\<lambda>x y deg. Inr (Some (- 1 / 20), Some (29 / 100), Some (31 / 50))),
      array_equals_string = (\<lambda>a s. Inr False),
      fastica = (\<lambda>n max_iter w cast v.
         Inr (\<lparr>nrows = nrows v, ncols = n, cell = (\<lambda>i j. real (i + j))\<rparr>,
              \<lparr>nrows = ncols v, ncols = n, cell = (\<lambda>i j. real (i * (j + 1)))\<rparr>)),
      sort_noise = (\<lambda>tcs. (replicate (nrows tcs) False, 0)),
      lag_n_autocorr = (\<lambda>tcs k. replicate (nrows tcs) 0),
      butterworth = (\<lambda>data fps_v low high. data),
      wavelet_noiseFilter = (\<lambda>data fps_v period. data)\<rparr>"

definition elementwise_numpy :: collaborators where
  "elementwise_numpy =
     sample_collaborators
       \<lparr>array_equals_string := (\<lambda>a s. if 2 \<le> length a then Inl ValueError else Inr False)\<rparr>"

definition sample_vector :: mat where
  "sample_vector = of_rows 5 [[1, 2, 3, 4, 5], [2, 1, 0, 1, 2]]"

text \<open>A dictionary of two components over three frames of one row of two pixels.\<close>

definition sample_components :: components where
  "sample_components =
     (new_components [0, 0, 0] None (3, 1, 2))
       \<lparr>eig_mix := of_rows 2 [[1, 2], [3, 4], [5, 6]],
        timecourses := mat_T (of_rows 2 [[1, 2], [3, 4], [5, 6]]),
        eig_vec := of_rows 2 [[1, 0], [0, 1]],
        n_components := 2, lag1 := [0, 0],
        noise_components := Some [False, True], cutoff := Some 0,
        artifact_components := Some [0, 0]\<rparr>"

section \<open>Evaluation helpers\<close>

lemma and_then_simps:
  "and_then (Inl e) f = Inl e" "and_then (Inr v) f = f v"
  by (simp_all add: and_then_def)

text \<open>The first index of a range at which a predicate holds.\<close>

lemma upt_split_first:
  assumes "[0..<n] = us @ y # vs"
  shows "us = [0..<y]"
proof -
  have len: "length us < n" using arg_cong[OF assms, of length] by simp
  have "[0..<n] ! length us = y" using assms by simp
  then have y: "y = length us" using len by simp
  have "us = take (length us) [0..<n]" using assms by simp
  also have "\<dots> = [0..<length us]" using len by (simp add: take_upt)
  finally show ?thesis using y by simp
qed

lemma first_hit:
  assumes "filter P [0..<n] = i # rest"
  shows "i < n \<and> P i \<and> (\<forall>j<i. \<not> P j)"
proof -
  from assms obtain us vs where split: "[0..<n] = us @ i # vs"
    and before: "\<forall>u\<in>set us. \<not> P u" and hit: "P i"
    by (auto simp add: filter_eq_Cons_iff)
  have "i \<in> set [0..<n]" using split by simp
  moreover have "us = [0..<i]" using split by (rule upt_split_first)
  ultimately show ?thesis using before hit by simp
qed

lemma no_hit: "filter P [0..<n] = [] \<longleftrightarrow> (\<forall>j<n. \<not> P j)"
  by (auto simp add: filter_empty_conv)

section \<open>The mean-signal filter dispatcher: accepted policies\<close>

lemma filter_mean_supported:
  "nm \<in> {''butterworth'', ''butterworth_lowpass'', ''butterworth_bandpass'', ''constant''}
     \<or> (nm = ''wavelet'' \<and> lo \<noteq> 0)
   \<Longrightarrow> \<exists>res. filter_mean ext m nm f lo hi = Inr res"
  by (auto simp add: filter_mean_def)

lemma filter_mean_unsupported:
  "nm \<notin> {''butterworth'', ''butterworth_lowpass'', ''butterworth_bandpass'', ''wavelet'',
           ''constant''}
   \<Longrightarrow> filter_mean ext m nm f lo hi = Inl (Exception_not_supported nm)"
  by (auto simp add: filter_mean_def)

lemma filter_mean_constant:
  "filter_mean ext m ''constant'' f lo hi = Inr (replicate (length m) (amean m))"
  by (simp add: filter_mean_def)

text \<open>
  Claim C8. The dispatcher is claimed to accept the high-pass policy that \<^verbatim>\<open>rebuild\<close> names as
  its default \<^verbatim>\<open>filter_method\<close>. The dispatcher knows the high-pass policy under the name
  \<^verbatim>\<open>'butterworth'\<close> only: for the default name \<^verbatim>\<open>'butterworth_highpass'\<close> of \<^verbatim>\<open>rebuild\<close>, on
  every time course and with every cutoff, it raises the exception of its last branch.
\<close>

theorem filter_mean_rejects_rebuild_default:
  "filter_mean ext m (filter_method rebuild_defaults) f lo hi
     = Inl (Exception_not_supported ''butterworth_highpass'')"
  by (simp add: filter_mean_def rebuild_defaults_def)

section \<open>The reconstruction engine: which components are excluded\<close>

lemma resolve_stored_vector:
  "resolve_artifact_components ext c Not_given incl =
     (case artifact_components c of None \<Rightarrow> Inl KeyError | Some stored \<Rightarrow> Inr stored)"
  by (simp add: resolve_artifact_components_def)

lemma resolve_string_none:
  "resolve_artifact_components ext c String_none incl = Inr (replicate (n_components c) 0)"
  by (simp add: resolve_artifact_components_def)

text \<open>
  Claim C3. The noise labels are claimed to be combined into the exclusion vector in every
  case where \<^verbatim>\<open>include_noise\<close> is false and the labels are present, also when the stored
  \<^verbatim>\<open>artifact_components\<close> is used. In \<^verbatim>\<open>rebuild\<close> the combination is the third branch of one
  \<^verbatim>\<open>if / elif / elif\<close> chain, so it is skipped when no vector is passed: on the sample
  dictionary (stored vector \<open>[0, 0]\<close>, noise labels \<open>[False, True]\<close>) with
  \<^verbatim>\<open>include_noise=False\<close> the resolved vector is \<open>[0, 0]\<close> and both components are
  rebuilt, while the sibling \<^verbatim>\<open>rebuild_mean_roi_timecourse\<close> resolves \<open>[0, 1]\<close> from the
  same dictionary.
\<close>

theorem rebuild_keeps_noise_with_stored_vector:
  "resolve_artifact_components ext sample_components Not_given False = Inr [0, 0]
   \<and> reconstruct_indices [0, 0] = [0, 1]
   \<and> roi_timecourse_artifact_components sample_components True False = Some (Inr [0, 1])"
  by (simp add: resolve_artifact_components_def sample_components_def new_components_def
      roi_timecourse_artifact_components_def add_noise_labels_def clamp_to_one_def
      and_then_simps reconstruct_indices_def upt_conv_Cons)

section \<open>The reconstruction engine: the round trip\<close>

lemma residual_accounting_type_error:
  "residual_accounting ext summarise c vector = Inl TypeError"
  by (simp add: residual_accounting_def call_rebuild_def rebuild_parameters_def and_then_simps)

lemma reconstruct_indices_all:
  "0 < n \<Longrightarrow> reconstruct_indices (replicate n 0) \<noteq> []"
  by (auto simp add: reconstruct_indices_def filter_empty_conv)

text \<open>
  Without the component filter no call that keeps a component returns: for every
  dictionary with a positive component count, every time window and every other option.
\<close>

lemma rebuild_selected_unbound:
  "\<not> apply_component_filter opts \<Longrightarrow>
     rebuild_selected ext c idx opts = Inl AssertionError
     \<or> rebuild_selected ext c idx opts = Inl UnboundLocalError"
  by (cases "check_eig_vec_size c")
     (auto simp add: rebuild_selected_def filter_component_timecourses_def and_then_simps
        read_local_def check_eig_vec_size_def split: option.splits prod.splits if_splits)

lemma rebuild_needs_component_filter:
  assumes "0 < n_components c" and "\<not> apply_component_filter opts"
  shows "rebuild ext c String_none opts \<in> {Inl IndexError, Inl AssertionError, Inl UnboundLocalError}"
  using assms reconstruct_indices_all[of "n_components c"]
    rebuild_selected_unbound[of opts ext c "reconstruct_indices (replicate (n_components c) 0)"]
  by (auto simp add: rebuild_def resolve_string_none and_then_simps split: prod.splits)

text \<open>
  Claim C1. Rebuilding with the string \<^verbatim>\<open>'none'\<close> and no filter is claimed to succeed and to
  give back the mean-removed matrix. With \<^verbatim>\<open>apply_component_filter=False\<close> the local name
  \<^verbatim>\<open>eig_mix\<close> of \<^verbatim>\<open>rebuild\<close> is never bound (its only assignment is inside the
  \<^verbatim>\<open>if apply_component_filter:\<close> block), and the first read of it raises: on the sample
  dictionary the call ends in UnboundLocalError. The call that \<^verbatim>\<open>project\<close> makes for its own
  residuals passes the keyword \<^verbatim>\<open>vector\<close>, which \<^verbatim>\<open>rebuild\<close> does not have, and ends in
  TypeError for every dictionary.
\<close>

theorem rebuild_round_trip_raises:
  "rebuild ext sample_components String_none (rebuild_defaults\<lparr>apply_mean_filter := False\<rparr>)
     = Inl UnboundLocalError
   \<and> call_rebuild [''artifact_components'', ''vector''] ext c String_none rebuild_defaults
     = Inl TypeError"
  by (simp add: rebuild_def sample_components_def new_components_def of_rows_def
      resolve_artifact_components_def and_then_simps reconstruct_indices_def upt_conv_Cons
      rebuild_selected_def check_eig_vec_size_def filter_component_timecourses_def
      rebuild_defaults_def read_local_def call_rebuild_def rebuild_parameters_def)

section \<open>The reconstruction engine: nothing selected\<close>

lemma reconstruct_indices_empty:
  "list_all (\<lambda>a. a \<noteq> 0) ac \<Longrightarrow> reconstruct_indices ac = []"
  by (auto simp add: reconstruct_indices_def filter_empty_conv list_all_iff)

lemma add_noise_labels_ones:
  assumes "list_all (\<lambda>a. a = 1) ones" and "add_noise_labels ones labels = Inr summed"
  shows "list_all (\<lambda>a. a = 1) (clamp_to_one summed)"
  using assms
  by (auto simp add: add_noise_labels_def clamp_to_one_def list_all_length
      split: if_splits)

lemma add_noise_labels_defined:
  "length labels = length ac \<Longrightarrow> \<exists>summed. add_noise_labels ac labels = Inr summed"
  by (simp add: add_noise_labels_def)

lemma slice_frames_zeros:
  "slice_frames (zeros_movie t x y) a b =
     \<lparr>frames = slice_len t a b, height = x, width = y, voxel = (\<lambda>f i j. 0)\<rparr>"
  by (simp add: slice_frames_def zeros_movie_def slice_len_def split: prod.splits)

lemma slice_len_inside:
  "0 \<le> a \<Longrightarrow> a \<le> b \<Longrightarrow> b \<le> int t \<Longrightarrow> slice_len t (Some a) (Some b) = nat (b - a)"
  by (simp add: slice_len_def slice_range_def slice_bound_def Let_def)

lemma slice_len_whole: "slice_len t None None = t"
  by (simp add: slice_len_def slice_range_def Let_def)

lemma slice_len_le: "slice_len t a b \<le> t"
  by (auto simp add: slice_len_def slice_range_def slice_bound_def Let_def split: option.splits)

text \<open>
  Claim C2, as amended. Let the dictionary have at least one column in \<^verbatim>\<open>eig_vec\<close>, and let
  the exclusion vector consist of ones. When the vector is the stored one (no vector is
  passed), or when it is passed and NumPy takes \<^verbatim>\<open>artifact_components == 'none'\<close> to be false
  (and the noise labels, if they are to be added, are as many as its entries), \<^verbatim>\<open>rebuild\<close>
  returns an array of zeros of the stored height and width. Its number of frames is the
  length of the Python slice \<^verbatim>\<open>[t_start:t_stop]\<close> of the \<open>t\<close> stored frames, which is
  \<open>t\<close> when both bounds are omitted and \<open>t_stop - t_start\<close> when
  \<open>0 \<le> t_start \<le> t_stop \<le> t\<close>.
\<close>

theorem rebuild_nothing_selected:
  assumes cols: "0 < ncols (eig_vec c)"
    and ones: "list_all (\<lambda>a. a = 1) ones"
    and arg: "(arg = Not_given \<and> artifact_components c = Some ones)
              \<or> (arg = Given ones \<and> array_equals_string ext ones ''none'' = Inr False
                  \<and> (include_noise opts \<or> noise_components c = None
                      \<or> map_option length (noise_components c) = Some (length ones)))"
    and shape: "shape c = (t, x, y)"
  shows "rebuild ext c arg opts =
           Inr \<lparr>frames = slice_len t (t_start opts) (t_stop opts), height = x, width = y,
                voxel = (\<lambda>f i j. 0)\<rparr>
         \<and> slice_len t None None = t
         \<and> (\<forall>a b. 0 \<le> a \<and> a \<le> b \<and> b \<le> int t \<longrightarrow> slice_len t (Some a) (Some b) = nat (b - a))"
proof -
  have nonzero: "list_all (\<lambda>a. a \<noteq> 0) v" if "list_all (\<lambda>a. a = 1) v" for v :: "int list"
    using that by (auto simp add: list_all_iff)
  have "\<exists>ac. resolve_artifact_components ext c arg (include_noise opts) = Inr ac
              \<and> list_all (\<lambda>a. a = 1) ac"
  proof (cases "arg = Not_given")
    case True
    with arg ones show ?thesis by (auto simp add: resolve_stored_vector)
  next
    case False
    with arg have given: "arg = Given ones"
      and cmp: "array_equals_string ext ones ''none'' = Inr False"
      and labels: "include_noise opts \<or> noise_components c = None
                   \<or> map_option length (noise_components c) = Some (length ones)"
      by auto
    show ?thesis
    proof (cases "\<not> include_noise opts \<and> noise_components c \<noteq> None")
      case False
      with given cmp ones show ?thesis
        by (auto simp add: resolve_artifact_components_def and_then_simps)
    next
      case True
      with labels obtain ls where ls: "noise_components c = Some ls" "length ls = length ones"
        by auto
      then obtain summed where s: "add_noise_labels ones ls = Inr summed"
        using add_noise_labels_defined by blast
      with True given cmp ls add_noise_labels_ones[OF ones s] show ?thesis
        by (simp add: resolve_artifact_components_def and_then_simps)
    qed
  qed
  then obtain ac where ac: "resolve_artifact_components ext c arg (include_noise opts) = Inr ac"
    and "list_all (\<lambda>a. a = 1) ac" by blast
  then have "reconstruct_indices ac = []"
    using nonzero reconstruct_indices_empty by blast
  with cols ac shape have "rebuild ext c arg opts =
      Inr (slice_frames (zeros_movie t x y) (t_start opts) (t_stop opts))"
    by (simp add: rebuild_def and_then_simps)
  then show ?thesis
    by (simp add: slice_frames_zeros slice_len_whole slice_len_inside)
qed

theorem rebuild_nothing_selected_witness:
  "rebuild elementwise_numpy (sample_components\<lparr>artifact_components := Some [1, 1]\<rparr>) Not_given
      (rebuild_defaults\<lparr>t_start := Some 1, t_stop := Some 3\<rparr>) =
     Inr \<lparr>frames = 2, height = 1, width = 2, voxel = (\<lambda>f i j. 0)\<rparr>
   \<and> rebuild sample_collaborators sample_components (Given [1, 1])
      (rebuild_defaults\<lparr>t_start := Some 1, t_stop := Some 3\<rparr>) =
     Inr \<lparr>frames = 2, height = 1, width = 2, voxel = (\<lambda>f i j. 0)\<rparr>"
  using rebuild_nothing_selected[of "sample_components\<lparr>artifact_components := Some [1, 1]\<rparr>"
      "[1, 1]" Not_given elementwise_numpy
      "rebuild_defaults\<lparr>t_start := Some 1, t_stop := Some 3\<rparr>" 3 1 2]
    rebuild_nothing_selected[of sample_components "[1, 1]" "Given [1, 1]" sample_collaborators
      "rebuild_defaults\<lparr>t_start := Some 1, t_stop := Some 3\<rparr>" 3 1 2]
  by (simp add: sample_components_def new_components_def of_rows_def rebuild_defaults_def
      sample_collaborators_def slice_len_def slice_range_def slice_bound_def)

text \<open>
  Claim C2, as stated, fails in three ways. A window that leaves the stored frames is
  clamped: three frames come back for the window from 0 to 5. A passed vector of two ones
  raises a ValueError at line 375 where NumPy compares it with \<^verbatim>\<open>'none'\<close> entry by entry.
  And a dictionary with no component raises at line 368, which reads column 0 of
  \<^verbatim>\<open>eig_vec\<close>.
\<close>

theorem rebuild_window_counterexample:
  "rebuild sample_collaborators (sample_components\<lparr>artifact_components := Some [1, 1]\<rparr>)
      Not_given (rebuild_defaults\<lparr>t_start := Some 0, t_stop := Some 5\<rparr>) =
     Inr \<lparr>frames = 3, height = 1, width = 2, voxel = (\<lambda>f i j. 0)\<rparr>
   \<and> rebuild elementwise_numpy sample_components (Given [1, 1]) rebuild_defaults
       = Inl ValueError
   \<and> rebuild sample_collaborators
        (sample_components\<lparr>eig_vec := of_rows 0 [[], []], eig_mix := of_rows 0 [[], [], []],
           n_components := 0, artifact_components := Some []\<rparr>)
        Not_given rebuild_defaults = Inl IndexError"
  by (simp add: rebuild_def sample_components_def new_components_def of_rows_def
      rebuild_defaults_def resolve_artifact_components_def reconstruct_indices_def
      and_then_simps slice_frames_def zeros_movie_def slice_range_def slice_bound_def
      upt_conv_Cons elementwise_numpy_def sample_collaborators_def)

section \<open>The adaptive component search: growth and termination\<close>

lemma grow_bounds: "n < t \<Longrightarrow> n \<le> grow t n \<and> grow t n \<le> t"
  by (simp add: grow_def)

lemma grow_strict: "2 \<le> n \<Longrightarrow> n < t \<Longrightarrow> n < grow t n"
  by (auto simp add: grow_def)

lemma adaptive_search_terminates:
  assumes "2 \<le> n"
  shows "\<exists>res. adaptive_search ext v u k t n inc = Some res \<and>
           (case res of
              Inl e \<Rightarrow> True
            | Inr r \<Rightarrow> n \<le> found_n_components r \<and> found_n_components r \<le> max n t
                      \<and> inc \<le> found_increased_cutoff r
                      \<and> found_increased_cutoff r \<le> inc + (t - n))"
  using assms
proof (induction "t - n" arbitrary: n inc rule: less_induct)
  case less
  show ?case
  proof (cases "fastica ext n k (Some (w_init u n)) False v")
    case (Inl e)
    then show ?thesis by (subst adaptive_search.simps) simp
  next
    case (Inr factors)
    obtain ev em where factors: "factors = (ev, em)" by (cases factors)
    obtain noise cutoff_v where labels: "sort_noise ext (mat_T em) = (noise, cutoff_v)"
      by (cases "sort_noise ext (mat_T em)")
    show ?thesis
    proof (cases "length noise = t \<or> p_signal noise < 75 \<or> t \<le> n")
      case True
      then have "adaptive_search ext v u k t n inc = accepted ev em noise cutoff_v n inc"
        using Inr factors labels by (subst adaptive_search.simps) auto
      then show ?thesis by (simp add: accepted_def)
    next
      case False
      then have lt: "n < t" by simp
      have step: "adaptive_search ext v u k t n inc =
                    adaptive_search ext v u k t (grow t n) (inc + 1)"
        using False Inr factors labels by (subst adaptive_search.simps) auto
      have bigger: "n < grow t n" using grow_strict less.prems lt by blast
      have below: "grow t n \<le> t" using grow_bounds lt by blast
      have "t - grow t n < t - n" using bigger below lt by arith
      moreover have "2 \<le> grow t n" using bigger less.prems by arith
      ultimately obtain res where
        res: "adaptive_search ext v u k t (grow t n) (inc + 1) = Some res"
        and post: "case res of
              Inl e \<Rightarrow> True
            | Inr r \<Rightarrow> grow t n \<le> found_n_components r
                      \<and> found_n_components r \<le> max (grow t n) t
                      \<and> inc + 1 \<le> found_increased_cutoff r
                      \<and> found_increased_cutoff r \<le> inc + 1 + (t - grow t n)"
        using less.hyps by blast
      show ?thesis
      proof (cases res)
        case (Inl e)
        with res step show ?thesis by simp
      next
        case (Inr r)
        with post bigger below lt have
          "n \<le> found_n_components r \<and> found_n_components r \<le> max n t
            \<and> inc \<le> found_increased_cutoff r \<and> found_increased_cutoff r \<le> inc + (t - n)"
          by (simp add: max_def) arith
        with res step Inr show ?thesis by simp
      qed
    qed
  qed
qed


text \<open>
  A count of one does not grow (\<^verbatim>\<open>1 // 2\<close> is zero): when the solver and the classifier keep
  the loop going at that count, it never leaves.
\<close>

lemma adaptive_search_stuck:
  assumes solver: "\<And>w. \<exists>ev em. fastica ext 1 k w False v = Inr (ev, em)
                     \<and> length (fst (sort_noise ext (mat_T em))) \<noteq> t
                     \<and> \<not> p_signal (fst (sort_noise ext (mat_T em))) < 75"
    and more: "1 < t"
  shows "adaptive_search ext v u k t 1 inc = None"
proof -
  have never: "e1 = ext \<and> v1 = v \<and> u1 = u \<and> k1 = k \<and> t1 = t \<and> n1 = 1 \<longrightarrow> False"
    if run: "adaptive_search e1 v1 u1 k1 t1 n1 i1 = Some y" for e1 v1 u1 k1 t1 n1 i1 y
    using run
  proof (rule adaptive_search.raw_induct[rotated, where P = "\<lambda>e1 v1 u1 k1 t1 n1 i1 y.
            e1 = ext \<and> v1 = v \<and> u1 = u \<and> k1 = k \<and> t1 = t \<and> n1 = 1 \<longrightarrow> False"])
    fix loop e2 v2 u2 k2 t2 n2 i2 y2
    assume hyp: "\<And>e3 v3 u3 k3 t3 n3 i3 y3. loop e3 v3 u3 k3 t3 n3 i3 = Some y3 \<Longrightarrow>
                   e3 = ext \<and> v3 = v \<and> u3 = u \<and> k3 = k \<and> t3 = t \<and> n3 = 1 \<longrightarrow> False"
      and body: "(case fastica e2 n2 k2 (Some (w_init u2 n2)) False v2 of
                   Inl e \<Rightarrow> Some (Inl e)
                 | Inr (ev, em) \<Rightarrow>
                     (case sort_noise e2 (mat_T em) of
                        (noise, cutoff_v) \<Rightarrow>
                          if length noise = t2 then accepted ev em noise cutoff_v n2 i2
                          else if p_signal noise < 75 then accepted ev em noise cutoff_v n2 i2
                          else if t2 \<le> n2 then accepted ev em noise cutoff_v n2 i2
                          else loop e2 v2 u2 k2 t2 (grow t2 n2) (i2 + 1))) = Some y2"
    show "e2 = ext \<and> v2 = v \<and> u2 = u \<and> k2 = k \<and> t2 = t \<and> n2 = 1 \<longrightarrow> False"
    proof
      assume same: "e2 = ext \<and> v2 = v \<and> u2 = u \<and> k2 = k \<and> t2 = t \<and> n2 = 1"
      obtain ev em where s: "fastica ext 1 k (Some (w_init u 1)) False v = Inr (ev, em)"
        "length (fst (sort_noise ext (mat_T em))) \<noteq> t"
        "\<not> p_signal (fst (sort_noise ext (mat_T em))) < 75"
        using solver by blast
      have "grow t 1 = 1" using more by (simp add: grow_def)
      with body same s more have "loop ext v u k t 1 (i2 + 1) = Some y2"
        by (simp split: prod.splits)
      with hyp show False by blast
    qed
  qed
  show ?thesis
  proof (cases "adaptive_search ext v u k t 1 inc")
    case None then show ?thesis .
  next
    case (Some y) with never show ?thesis by blast
  qed
qed

text \<open>
  Claim C4, as amended. The loop is entered again only with the count \<open>grow t n\<close>, and
  only when \<open>n < t\<close>: that count is at least \<open>n\<close> and at most \<open>t = shape[0]\<close>. From
  every initial count of two or more the loop returns; the count it ends with lies between
  the initial count and the larger of the initial count and \<open>t\<close>, and the counter
  \<^verbatim>\<open>increased_cutoff\<close> has grown by at most \<open>t - n\<close>.
\<close>

theorem adaptive_search_growth:
  "(n < t \<longrightarrow> n \<le> grow t n \<and> grow t n \<le> t)
   \<and> (2 \<le> n \<longrightarrow>
        (\<exists>res. adaptive_search ext v u k t n inc = Some res \<and>
           (case res of
              Inl e \<Rightarrow> True
            | Inr r \<Rightarrow> n \<le> found_n_components r \<and> found_n_components r \<le> max n t
                      \<and> inc \<le> found_increased_cutoff r
                      \<and> found_increased_cutoff r \<le> inc + (t - n))))"
  using grow_bounds adaptive_search_terminates by blast

theorem adaptive_search_growth_witness:
  "grow 5 2 = 3
   \<and> (\<exists>res. adaptive_search sample_collaborators sample_vector sample_vector 1000 5 2 0
              = Some res)"
  using adaptive_search_growth[of 2 5 sample_collaborators sample_vector sample_vector 1000 0]
  by (auto simp add: grow_def)

text \<open>
  Claim C4, as stated, fails twice. The initial count \<^verbatim>\<open>cross_1 * svd_multiplier\<close> is not cut
  to \<^verbatim>\<open>shape[0]\<close>: with five time samples and an initial count of seven the loop runs, and
  ends, with seven. And from the initial count one, with a first component that is
  signal, the loop does not terminate.
\<close>

theorem adaptive_search_counterexample:
  "(\<exists>r. adaptive_search sample_collaborators sample_vector sample_vector 1000 5 7 0
           = Some (Inr r) \<and> found_n_components r = 7)
   \<and> adaptive_search sample_collaborators sample_vector sample_vector 1000 5 1 0 = None"
proof
  show "\<exists>r. adaptive_search sample_collaborators sample_vector sample_vector 1000 5 7 0
           = Some (Inr r) \<and> found_n_components r = 7"
    by (subst adaptive_search.simps)
       (simp add: sample_collaborators_def mat_T_def accepted_def p_signal_def)
  show "adaptive_search sample_collaborators sample_vector sample_vector 1000 5 1 0 = None"
    by (rule adaptive_search_stuck)
       (simp_all add: sample_collaborators_def mat_T_def p_signal_def)
qed

section \<open>The fixed-count path: the sign convention\<close>

lemma argsort_set: "set (argsort ks) = {0..<length ks}"
  by (simp add: argsort_def)

lemma argsort_length: "length (argsort ks) = length ks"
  by (simp add: argsort_def)

lemma column_std_length: "length (column_std m) = ncols m"
  by (simp add: column_std_def)

lemma take_columns_defined:
  "list_all (\<lambda>j. j < ncols m) idx \<Longrightarrow>
     take_columns m idx =
       Inr \<lparr>nrows = nrows m, ncols = length idx, cell = (\<lambda>i j. cell m i (idx ! j))\<rparr>"
  by (simp add: take_columns_def)

lemma argsort_in_range: "ncols em \<le> k \<Longrightarrow> list_all (\<lambda>j. j < k) (argsort (column_std em))"
  by (auto simp add: list_all_iff argsort_set column_std_length)

lemma order_by_std_defined:
  assumes "ncols em \<le> ncols ev"
  shows "\<exists>ev0 em0. order_by_std ev em = Inr (ev0, em0)
           \<and> nrows ev0 = nrows ev \<and> ncols ev0 = ncols em \<and> ncols em0 = ncols em"
  using assms argsort_in_range[of em "ncols ev"] argsort_in_range[of em "ncols em"]
  by (simp add: order_by_std_def Let_def take_columns_defined and_then_simps
      reverse_columns_def argsort_length column_std_length)

lemma dominant_loading_negate_other:
  "j \<noteq> i \<Longrightarrow> dominant_loading (negate_column m i) j = dominant_loading m j"
  by (simp add: dominant_loading_def negate_column_def column_def)

lemma flip_columns_skip:
  "\<not> dominant_loading ev i < 0 \<Longrightarrow> flip_columns (i # rest) ev m = flip_columns rest ev m"
proof -
  assume "\<not> dominant_loading ev i < 0"
  then have "(\<lambda>r j. if j \<in> set (i # rest) \<and> dominant_loading ev j < 0 then - cell m r j
                     else cell m r j)
           = (\<lambda>r j. if j \<in> set rest \<and> dominant_loading ev j < 0 then - cell m r j
                     else cell m r j)"
    by (auto simp add: fun_eq_iff)
  then show ?thesis by (simp add: flip_columns_def)
qed

lemma flip_columns_negate:
  assumes "dominant_loading ev i < 0" and "i \<notin> set rest"
  shows "flip_columns rest (negate_column ev i) (negate_column m i) = flip_columns (i # rest) ev m"
proof -
  have "(\<lambda>r j. if j \<in> set rest \<and> dominant_loading (negate_column ev i) j < 0
               then - cell (negate_column m i) r j else cell (negate_column m i) r j)
      = (\<lambda>r j. if j \<in> set (i # rest) \<and> dominant_loading ev j < 0 then - cell m r j
                else cell m r j)"
  proof (intro ext)
    fix r j
    show "(if j \<in> set rest \<and> dominant_loading (negate_column ev i) j < 0
             then - cell (negate_column m i) r j else cell (negate_column m i) r j)
        = (if j \<in> set (i # rest) \<and> dominant_loading ev j < 0 then - cell m r j
             else cell m r j)"
    proof (cases "j = i")
      case True
      with assms show ?thesis by (simp add: negate_column_def)
    next
      case False
      then show ?thesis
        by (simp add: dominant_loading_negate_other) (simp add: negate_column_def)
    qed
  qed
  then have "(negate_column m i)\<lparr>cell := (\<lambda>r j. if j \<in> set rest \<and> dominant_loading (negate_column ev i) j < 0
               then - cell (negate_column m i) r j else cell (negate_column m i) r j)\<rparr>
      = (negate_column m i)\<lparr>cell := (\<lambda>r j. if j \<in> set (i # rest) \<and> dominant_loading ev j < 0
               then - cell m r j else cell m r j)\<rparr>"
    by (rule arg_cong)
  then show ?thesis
    unfolding flip_columns_def by (simp add: negate_column_def)
qed

lemma flags_skip:
  "\<not> dominant_loading ev i < 0 \<Longrightarrow>
     map (\<lambda>j. if j \<in> set (i # rest) \<and> dominant_loading ev j < 0 then - 1 else fl ! j)
       [0..<length fl]
   = map (\<lambda>j. if j \<in> set rest \<and> dominant_loading ev j < 0 then - 1 else (fl ! j :: int))
       [0..<length fl]"
  by auto

lemma flags_negate:
  assumes "dominant_loading ev i < 0" and "i \<notin> set rest"
  shows "map (\<lambda>j. if j \<in> set rest \<and> dominant_loading (negate_column ev i) j < 0 then - 1
                   else fl[i := - 1] ! j) [0..<length (fl[i := - 1])]
       = map (\<lambda>j. if j \<in> set (i # rest) \<and> dominant_loading ev j < 0 then - 1
                   else (fl ! j :: int)) [0..<length fl]"
proof -
  have "(if j \<in> set rest \<and> dominant_loading (negate_column ev i) j < 0 then - 1
           else fl[i := - 1] ! j)
      = (if j \<in> set (i # rest) \<and> dominant_loading ev j < 0 then - 1 else fl ! j)"
    if "j < length fl" for j
  proof (cases "j = i")
    case True
    with assms that show ?thesis by simp
  next
    case False
    then show ?thesis by (simp add: dominant_loading_negate_other)
  qed
  then show ?thesis by simp
qed

lemma sign_fix_result:
  assumes "distinct todo" and "list_all (\<lambda>i. i < ncols ev \<and> i < ncols em) todo"
    and "0 < nrows ev"
  shows "sign_fix todo ev em fl =
           Inr (flip_columns todo ev ev, flip_columns todo ev em,
                map (\<lambda>j. if j \<in> set todo \<and> dominant_loading ev j < 0 then - 1 else fl ! j)
                  [0..<length fl])"
  using assms
proof (induction todo arbitrary: ev em fl)
  case Nil
  then show ?case by (simp add: flip_columns_def map_nth)
next
  case (Cons i rest)
  show ?case
  proof (cases "dominant_loading ev i < 0")
    case False
    have "sign_fix (i # rest) ev em fl = sign_fix rest ev em fl"
      using Cons.prems False by simp
    also have "\<dots> = Inr (flip_columns rest ev ev, flip_columns rest ev em,
                map (\<lambda>j. if j \<in> set rest \<and> dominant_loading ev j < 0 then - 1 else fl ! j)
                  [0..<length fl])"
      using Cons.IH Cons.prems by simp
    finally show ?thesis
      by (simp only: flip_columns_skip[OF False] flags_skip[OF False])
  next
    case True
    have rest: "distinct rest" "i \<notin> set rest" using Cons.prems by auto
    have "list_all (\<lambda>j. j < ncols (negate_column ev i) \<and> j < ncols (negate_column em i)) rest"
      "0 < nrows (negate_column ev i)"
      using Cons.prems by (simp_all add: negate_column_def)
    then have step: "sign_fix rest (negate_column ev i) (negate_column em i) (fl[i := - 1]) =
       Inr (flip_columns rest (negate_column ev i) (negate_column ev i),
            flip_columns rest (negate_column ev i) (negate_column em i),
            map (\<lambda>j. if j \<in> set rest \<and> dominant_loading (negate_column ev i) j < 0 then - 1
                      else fl[i := - 1] ! j) [0..<length (fl[i := - 1])])"
      using Cons.IH rest by blast
    have "sign_fix (i # rest) ev em fl =
            sign_fix rest (negate_column ev i) (negate_column em i) (fl[i := - 1])"
      using Cons.prems True by simp
    with step show ?thesis
      by (simp only: flip_columns_negate[OF True rest(2)] flags_negate[OF True rest(2)])
  qed
qed

lemma dominant_loading_flipped:
  "dominant_loading (flip_columns todo ev ev) i =
     (if i \<in> set todo \<and> dominant_loading ev i < 0 then - dominant_loading ev i
      else dominant_loading ev i)"
proof -
  have "map abs (column (flip_columns todo ev ev) i) = map abs (column ev i)"
    by (simp add: flip_columns_def column_def)
  then show ?thesis
    by (simp add: dominant_loading_def) (simp add: flip_columns_def dominant_loading_def)
qed

lemma column_flipped:
  "column (flip_columns todo ev m) i =
     (if i \<in> set todo \<and> dominant_loading ev i < 0 then map uminus (column m i) else column m i)"
  by (auto simp add: flip_columns_def column_def)

lemma normalize_components_result:
  assumes "ncols em \<le> ncols ev" and "n \<le> ncols em" and "0 < nrows ev"
  shows "\<exists>ev0 em0 res.
           order_by_std ev em = Inr (ev0, em0)
         \<and> normalize_components ext n ev em = Inr res
         \<and> length (fixed_flipped res) = n
         \<and> (\<forall>i<n. 0 \<le> dominant_loading (fixed_eig_vec res) i
               \<and> (if dominant_loading ev0 i < 0
                  then fixed_flipped res ! i = - 1
                     \<and> column (fixed_eig_vec res) i = map uminus (column ev0 i)
                     \<and> column (fixed_eig_mix res) i = map uminus (column em0 i)
                  else fixed_flipped res ! i = 1
                     \<and> column (fixed_eig_vec res) i = column ev0 i
                     \<and> column (fixed_eig_mix res) i = column em0 i))"
proof -
  obtain ev0 em0 where ord: "order_by_std ev em = Inr (ev0, em0)"
    and shape: "nrows ev0 = nrows ev" "ncols ev0 = ncols em" "ncols em0 = ncols em"
    using order_by_std_defined[OF assms(1)] by blast
  have "list_all (\<lambda>i. i < ncols ev0 \<and> i < ncols em0) [0..<n]"
    using assms(2) shape by (simp add: list_all_iff)
  then have fixed: "sign_fix [0..<n] ev0 em0 (replicate n 1) =
      Inr (flip_columns [0..<n] ev0 ev0, flip_columns [0..<n] ev0 em0,
           map (\<lambda>j. if j \<in> set [0..<n] \<and> dominant_loading ev0 j < 0 then - 1
                     else replicate n 1 ! j) [0..<length (replicate n (1::int))])"
    using sign_fix_result[of "[0..<n]" ev0 em0 "replicate n 1"] assms(3) shape by simp
  let ?res = "\<lparr>fixed_eig_vec = flip_columns [0..<n] ev0 ev0,
               fixed_eig_mix = flip_columns [0..<n] ev0 em0,
               fixed_flipped = map (\<lambda>j. if j \<in> set [0..<n] \<and> dominant_loading ev0 j < 0 then - 1
                     else replicate n 1 ! j) [0..<length (replicate n (1::int))],
               fixed_noise = fst (sort_noise ext (mat_T (flip_columns [0..<n] ev0 em0))),
               fixed_cutoff = snd (sort_noise ext (mat_T (flip_columns [0..<n] ev0 em0)))\<rparr>"
  have norm: "normalize_components ext n ev em = Inr ?res"
    using ord fixed by (simp add: normalize_components_def and_then_simps)
  have "\<forall>i<n. 0 \<le> dominant_loading (fixed_eig_vec ?res) i
               \<and> (if dominant_loading ev0 i < 0
                  then fixed_flipped ?res ! i = - 1
                     \<and> column (fixed_eig_vec ?res) i = map uminus (column ev0 i)
                     \<and> column (fixed_eig_mix ?res) i = map uminus (column em0 i)
                  else fixed_flipped ?res ! i = 1
                     \<and> column (fixed_eig_vec ?res) i = column ev0 i
                     \<and> column (fixed_eig_mix ?res) i = column em0 i)"
    by (simp add: dominant_loading_flipped column_flipped)
  moreover have "length (fixed_flipped ?res) = n" by simp
  ultimately show ?thesis using ord norm by blast
qed

subsection \<open>The location of maximal absolute value\<close>















section \<open>The linearity-transition estimator\<close>

subsection \<open>The code computes the curve of the specification\<close>

lemma amin_is_Min: "xs \<noteq> [] \<Longrightarrow> amin xs = Min (set xs)"
proof (cases xs)
  case Nil
  assume "xs \<noteq> []"
  with Nil show ?thesis by simp
next
  case (Cons a rest)
  have "Min (set (a # rest)) = fold min rest a" by (rule Min.set_eq_fold)
  with Cons show ?thesis by (simp add: amin_def)
qed

lemma shift_length: "length (shift_to_zero xs) = length xs"
  by (simp add: shift_to_zero_def)

lemma foldl_fadd_None: "foldl fadd None xs = None"
  by (induction xs) (simp_all add: fadd_def)

lemma foldl_fadd_Some: "foldl fadd (Some a) (map Some ys) = Some (a + sum_list ys)"
  by (induction ys arbitrary: a) (simp_all add: fadd_def add.assoc)

lemma foldl_fadd_nan: "xs \<noteq> [] \<Longrightarrow> foldl fadd a (map (\<lambda>v. None) xs) = None"
  by (cases xs; cases a) (simp_all add: fadd_def foldl_fadd_None)

lemma sum_list_quotients: "sum_list (map (\<lambda>v. v / c) ys) = sum_list ys / (c :: real)"
  by (induction ys) (simp_all add: add_divide_distrib)

lemma curve_nth:
  assumes "ev \<noteq> []" and "i < length ev"
  shows "cumulative_curve (shift_to_zero ev) ! i = energy_curve ev i"
proof -
  let ?shifted = "map (\<lambda>v. v - Min (set ev)) ev"
  have shifted: "shift_to_zero ev = ?shifted"
    using assms(1) by (simp add: shift_to_zero_def amin_is_Min)
  have nth: "cumulative_curve ?shifted ! i =
               foldl fadd (Some 0)
                 (take (Suc i) (map (\<lambda>v. fdivide v (sum_list ?shifted)) ?shifted))"
    using assms(2) by (simp add: cumulative_curve_def cumsum_def)
  show ?thesis
  proof (cases "sum_list ?shifted = 0")
    case True
    have nan: "take (Suc i) (map (\<lambda>v. fdivide v (sum_list ?shifted)) ?shifted)
            = map (\<lambda>v. None) (take (Suc i) ?shifted)"
      using True by (simp add: fdivide_def take_map)
    have "take (Suc i) ?shifted \<noteq> []" using assms by (cases ev) simp_all
    then have "foldl fadd (Some 0) (map (\<lambda>v. None) (take (Suc i) ?shifted)) = None"
      by (rule foldl_fadd_nan)
    then have "cumulative_curve ?shifted ! i = None"
      using nth nan by (simp only:)
    then show ?thesis
      using True shifted by (simp add: energy_curve_def)
  next
    case False
    have "take (Suc i) (map (\<lambda>v. fdivide v (sum_list ?shifted)) ?shifted)
            = map Some (map (\<lambda>v. v / sum_list ?shifted) (take (Suc i) ?shifted))"
      using False by (simp add: fdivide_def take_map)
    then have "cumulative_curve ?shifted ! i
                 = Some (sum_list (take (Suc i) ?shifted) / sum_list ?shifted)"
      using nth by (simp only: foldl_fadd_Some sum_list_quotients) simp
    then show ?thesis
      using False shifted by (simp add: energy_curve_def take_map)
  qed
qed

lemma curve_is_energy_curve:
  "ev \<noteq> [] \<Longrightarrow>
     cumulative_curve (shift_to_zero ev) = map (energy_curve ev) [0..<length ev]"
proof (rule nth_equalityI)
  show "length (cumulative_curve (shift_to_zero ev)) = length (map (energy_curve ev) [0..<length ev])"
    by (simp add: cumulative_curve_def cumsum_def shift_length)
next
  fix i
  assume ne: "ev \<noteq> []" and "i < length (cumulative_curve (shift_to_zero ev))"
  then have "i < length ev" by (simp add: cumulative_curve_def cumsum_def shift_length)
  with ne show "cumulative_curve (shift_to_zero ev) ! i = map (energy_curve ev) [0..<length ev] ! i"
    by (simp add: curve_nth)
qed

lemma index_is_arange: "component_index (shift_to_zero ev) = map real [0..<length ev]"
  by (simp add: component_index_def shift_length)

lemma exceeds_is_crossing:
  "fgreater (energy_curve ev i) (polyval p (Some (real i))) = crosses ev p i"
proof -
  obtain a b c where p: "p = (a, b, c)" by (cases p)
  show ?thesis
    by (cases a; cases b; cases c; cases "energy_curve ev i")
       (simp_all add: p crosses_def polyval_def fadd_def fmul_def fgreater_def
          power2_eq_square algebra_simps)
qed

text \<open>The outcome of the estimator when the fit returns the coefficients \<open>p\<close>.\<close>

lemma transition_outcome:
  assumes "st r \<noteq> []"
    and "polyfit ext (map real [0..<length (st r)])
           (map (energy_curve (st r)) [0..<length (st r)]) 2 = Inr p"
  shows "fst (approximate_svd_linearity_transition ext st r) =
           (case filter (crosses (st r) p) [0..<length (st r)] of
              [] \<Rightarrow> Inl IndexError
            | transition # others \<Rightarrow> Inr transition)"
proof -
  let ?curve = "cumulative_curve (shift_to_zero (st r))"
  let ?x = "component_index (shift_to_zero (st r))"
  have fit: "polyfit ext ?x ?curve 2 = Inr p"
    using assms by (simp add: curve_is_energy_curve index_is_arange)
  have "fgreater (?curve ! i) (map (\<lambda>xi. polyval p (Some xi)) ?x ! i) = crosses (st r) p i"
    if "i < length (st r)" for i
    using that assms(1) by (simp add: curve_nth index_is_arange exceeds_is_crossing)
  then have same: "filter (\<lambda>i. fgreater (?curve ! i) (map (\<lambda>xi. polyval p (Some xi)) ?x ! i))
                     [0..<length ?x]
                 = filter (crosses (st r) p) [0..<length (st r)]"
    by (intro filter_cong) (simp_all add: index_is_arange)
  show ?thesis
    using assms(1) by (simp add: approximate_svd_linearity_transition_def Let_def fit same
        split: list.splits)
qed

lemma transition_fit_error:
  assumes "st r \<noteq> []"
    and "polyfit ext (map real [0..<length (st r)])
           (map (energy_curve (st r)) [0..<length (st r)]) 2 = Inl e"
  shows "fst (approximate_svd_linearity_transition ext st r) = Inl e"
  using assms
  by (simp add: approximate_svd_linearity_transition_def Let_def curve_is_energy_curve
      index_is_arange)

lemma transition_empty:
  "st r = [] \<Longrightarrow> approximate_svd_linearity_transition ext st r = (Inl ValueError, st)"
  by (simp add: approximate_svd_linearity_transition_def)

text \<open>
  A spectrum that is not sorted, \<^verbatim>\<open>[3, 2, 4, 1, 2]\<close>: its curve is
  \<^verbatim>\<open>[2/7, 3/7, 6/7, 6/7, 1]\<close>, the sample parabola takes the values
  \<^verbatim>\<open>[0.62, 0.86, 1.0, 1.04, 0.98]\<close>, and the curve is above it at index 4 only. A constant
  spectrum has no curve at all.
\<close>

lemma sample_below_parabola:
  "\<not> crosses [3, 2, 4, 1, 2] (Some (- 1 / 20), Some (29 / 100), Some (31 / 50)) 0"
  "\<not> crosses [3, 2, 4, 1, 2] (Some (- 1 / 20), Some (29 / 100), Some (31 / 50)) 1"
  "\<not> crosses [3, 2, 4, 1, 2] (Some (- 1 / 20), Some (29 / 100), Some (31 / 50)) 2"
  "\<not> crosses [3, 2, 4, 1, 2] (Some (- 1 / 20), Some (29 / 100), Some (31 / 50)) 3"
  by (simp_all add: crosses_def energy_curve_def)

lemma sample_above_parabola:
  "crosses [3, 2, 4, 1, 2] (Some (- 1 / 20), Some (29 / 100), Some (31 / 50)) 4"
  unfolding crosses_def
  by (rule exI[of _ 1], rule exI[of _ "- 1 / 20"], rule exI[of _ "29 / 100"],
      rule exI[of _ "31 / 50"]) (simp add: energy_curve_def)

lemma constant_spectrum_has_no_curve: "energy_curve [2, 2, 2] i = None"
  by (simp add: energy_curve_def)

text \<open>
  Claim C6. For every non-empty spectrum on which the fit returns its coefficients: when
  the cumulative energy curve (the spectrum shifted by its minimum, normalised to sum one
  and summed up) lies strictly above the fitted parabola at some index, the estimator
  returns the smallest such index; when it does so nowhere, in particular when the
  spectrum is constant and the curve is not a number, the estimator fails with the
  IndexError of \<^verbatim>\<open>[0][0]\<close>. An exception of the fit leaves the estimator as it is, and an
  empty spectrum fails before the fit, in \<^verbatim>\<open>min\<close>.
\<close>

theorem transition_is_first_crossing:
  "(st r \<noteq> [] \<longrightarrow>
      (\<forall>p. polyfit ext (map real [0..<length (st r)])
               (map (energy_curve (st r)) [0..<length (st r)]) 2 = Inr p \<longrightarrow>
           (if \<exists>i<length (st r). crosses (st r) p i
            then \<exists>i<length (st r).
                   fst (approximate_svd_linearity_transition ext st r) = Inr i
                 \<and> crosses (st r) p i \<and> (\<forall>j<i. \<not> crosses (st r) p j)
            else fst (approximate_svd_linearity_transition ext st r) = Inl IndexError))
    \<and> (\<forall>e. polyfit ext (map real [0..<length (st r)])
               (map (energy_curve (st r)) [0..<length (st r)]) 2 = Inl e \<longrightarrow>
           fst (approximate_svd_linearity_transition ext st r) = Inl e))
   \<and> (st r = [] \<longrightarrow> fst (approximate_svd_linearity_transition ext st r) = Inl ValueError)"
proof (intro conjI allI impI)
  fix p
  assume ne: "st r \<noteq> []"
    and fit: "polyfit ext (map real [0..<length (st r)])
               (map (energy_curve (st r)) [0..<length (st r)]) 2 = Inr p"
  have out: "fst (approximate_svd_linearity_transition ext st r) =
           (case filter (crosses (st r) p) [0..<length (st r)] of
              [] \<Rightarrow> Inl IndexError
            | transition # others \<Rightarrow> Inr transition)"
    using ne fit by (rule transition_outcome)
  show "if \<exists>i<length (st r). crosses (st r) p i
        then \<exists>i<length (st r).
               fst (approximate_svd_linearity_transition ext st r) = Inr i
             \<and> crosses (st r) p i \<and> (\<forall>j<i. \<not> crosses (st r) p j)
        else fst (approximate_svd_linearity_transition ext st r) = Inl IndexError"
  proof (cases "filter (crosses (st r) p) [0..<length (st r)]")
    case Nil
    then have "\<forall>j<length (st r). \<not> crosses (st r) p j" by (simp only: no_hit)
    with out Nil show ?thesis by simp
  next
    case (Cons i rest)
    then have "i < length (st r) \<and> crosses (st r) p i \<and> (\<forall>j<i. \<not> crosses (st r) p j)"
      by (rule first_hit)
    with out Cons show ?thesis by auto
  qed
next
  fix e
  assume "st r \<noteq> []"
    and "polyfit ext (map real [0..<length (st r)])
               (map (energy_curve (st r)) [0..<length (st r)]) 2 = Inl e"
  then show "fst (approximate_svd_linearity_transition ext st r) = Inl e"
    by (rule transition_fit_error)
next
  assume "st r = []"
  then show "fst (approximate_svd_linearity_transition ext st r) = Inl ValueError"
    by (simp add: transition_empty)
qed

theorem transition_is_first_crossing_witness:
  "fst (approximate_svd_linearity_transition sample_collaborators (\<lambda>r. [3, 2, 4, 1, 2]) 0)
     = Inr 4
   \<and> fst (approximate_svd_linearity_transition sample_collaborators (\<lambda>r. [2, 2, 2]) 0)
     = Inl IndexError"
proof -
  let ?p = "(Some (- 1 / 20), Some (29 / 100), Some (31 / 50))
              :: real option \<times> real option \<times> real option"
  have fit: "polyfit sample_collaborators x y 2 = Inr ?p" for x y
    by (simp add: sample_collaborators_def)
  from transition_is_first_crossing[of "\<lambda>r. [3, 2, 4, 1, 2]" 0 sample_collaborators]
    fit sample_above_parabola
  obtain i where i: "i < 5"
      "fst (approximate_svd_linearity_transition sample_collaborators (\<lambda>r. [3, 2, 4, 1, 2]) 0)
         = Inr i"
      "crosses [3, 2, 4, 1, 2] ?p i"
    by (auto split: if_splits)
  have "i = 4"
  proof (rule ccontr)
    assume "i \<noteq> 4"
    with i(1) have "i = 0 \<or> i = 1 \<or> i = 2 \<or> i = 3" by arith
    with i(3) sample_below_parabola show False by auto
  qed
  moreover have "\<not> (\<exists>i<3. crosses [2, 2, 2] ?p i)"
    by (simp add: crosses_def constant_spectrum_has_no_curve)
  with transition_is_first_crossing[of "\<lambda>r. [2, 2, 2]" 0 sample_collaborators] fit
  have "fst (approximate_svd_linearity_transition sample_collaborators (\<lambda>r. [2, 2, 2]) 0)
     = Inl IndexError"
    by (auto split: if_splits)
  ultimately show ?thesis using i(2) by simp
qed

text \<open>The caller's array after the call: the entries minus their minimum.\<close>

lemma transition_store:
  "st r \<noteq> [] \<Longrightarrow>
     snd (approximate_svd_linearity_transition ext st r) = st(r := shift_to_zero (st r))"
  by (simp add: approximate_svd_linearity_transition_def Let_def split: sum.splits list.splits)

lemma sample_shift: "shift_to_zero [7, 4, 2, 1, 1] = [6, 3, 1, 0, 0]"
  by (simp add: shift_to_zero_def amin_def)

lemma sample_transition:
  "approximate_svd_linearity_transition sample_collaborators (st(r := [7, 4, 2, 1, 1])) r
     = (Inr 1, st(r := [6, 3, 1, 0, 0]))"
  by (simp add: approximate_svd_linearity_transition_def sample_shift cumulative_curve_def
      cumsum_def fdivide_def fadd_def fmul_def fgreater_def component_index_def
      sample_collaborators_def polyval_def upt_conv_Cons)

section \<open>Residual accounting\<close>

lemma fixed_count_path_defined:
  assumes "fastica ext n k None False v = Inr (ev, em)"
    and "ncols em \<le> ncols ev" and "n \<le> ncols em" and "0 < nrows ev"
  shows "\<exists>fr. fixed_count_path ext v n k = Inr fr"
proof -
  obtain res where "normalize_components ext n ev em = Inr res"
    using normalize_components_result[OF assms(2-4)] by blast
  with assms(1) show ?thesis by (simp add: fixed_count_path_def and_then_simps)
qed

lemma finish_project_caught:
  "residual_accounting ext summarise (assign_factors ext c ev em) vector = Inl e \<Longrightarrow>
     finish_project ext summarise True c vector ev em =
       ((assign_factors ext c ev em)\<lparr>project_meta_n_components := Some (ncols ev)\<rparr>, Some e)"
  by (simp add: finish_project_def)

lemma finish_project_keeps_svd_eigval:
  "svd_eigval (fst (finish_project ext summarise calc c vector ev em)) = svd_eigval c"
  by (simp add: finish_project_def assign_factors_def Let_def split: sum.splits prod.splits)

lemma adaptive_path_fields:
  assumes "adaptive_path ext st r c vector m k = Some (Inr (c', ev, em, st'))"
  shows "residuals_spatial c' = residuals_spatial c
       \<and> residuals_temporal c' = residuals_temporal c
       \<and> svd_eigval c' = Some r
       \<and> (\<exists>u raw. run_svd ext vector = Inr (u, raw) \<and> raw \<noteq> [] \<and> st' r = shift_to_zero raw)"
proof -
  from assms obtain u raw where svd: "run_svd ext vector = Inr (u, raw)"
    by (auto simp add: adaptive_path_def split: sum.splits)
  from assms svd obtain cross_1 where
    est: "approximate_svd_linearity_transition ext (st(r := raw)) r = (Inr cross_1, st')"
    by (auto simp add: adaptive_path_def split: sum.splits prod.splits option.splits)
  have nonempty: "raw \<noteq> []"
    using est by (auto simp add: approximate_svd_linearity_transition_def)
  then have "snd (approximate_svd_linearity_transition ext (st(r := raw)) r)
               = (st(r := raw))(r := shift_to_zero raw)"
    using transition_store[of "st(r := raw)" r ext] by simp
  with est have store: "st' r = shift_to_zero raw" by simp
  from assms svd est have "residuals_spatial c' = residuals_spatial c
       \<and> residuals_temporal c' = residuals_temporal c \<and> svd_eigval c' = Some r"
    by (auto simp add: adaptive_path_def split: sum.splits prod.splits option.splits)
  with svd nonempty store show ?thesis by blast
qed

lemma decompose_fields:
  assumes "decompose ext st r c centred narg m k = Some (Inr (c', ev, em, st'))"
  shows "residuals_spatial c' = residuals_spatial c
       \<and> residuals_temporal c' = residuals_temporal c"
proof (cases narg)
  case None
  with assms adaptive_path_fields show ?thesis by (simp add: decompose_def)
next
  case (Some n)
  with assms show ?thesis by (auto simp add: decompose_def split: sum.splits)
qed

lemma project_after_residual_failure:
  assumes "prepare vector rm = Inr (mean_v, centred)"
    and "decompose ext st r (new_components mean_v rm shp) centred narg
           (case mult of None \<Rightarrow> 5 | Some m \<Rightarrow> m) k = Some (Inr (c1, ev, em, st1))"
    and "residual_accounting ext summarise (assign_factors ext c1 ev em) centred = Inl e"
  shows "\<exists>c'. project ext summarise st r vector shp rm narg mult True k
                 = Some (Inr (c', st1, Some e))
             \<and> c' = (assign_factors ext c1 ev em)\<lparr>project_meta_n_components := Some (ncols ev)\<rparr>
             \<and> eig_vec c' = ev \<and> eig_mix c' = em \<and> n_components c' = ncols ev
             \<and> residuals_spatial c' = None \<and> residuals_temporal c' = None"
proof -
  have "residuals_spatial c1 = None \<and> residuals_temporal c1 = None"
    using decompose_fields[OF assms(2)] by (simp add: new_components_def)
  then show ?thesis
    using assms finish_project_caught[OF assms(3)]
    by (simp add: project_def assign_factors_def)
qed

lemma sample_prepare:
  "prepare sample_vector None
     = Inr (column_means sample_vector,
            subtract_from_rows sample_vector (column_means sample_vector))"
  by (simp add: prepare_def crop_to_roimask_def and_then_simps)

text \<open>
  Claim C9. Whenever the preparation and the chosen decomposition path complete, and the
  residual computation fails with any exception \<open>e\<close>, \<^verbatim>\<open>project\<close> with
  \<^verbatim>\<open>calc_residuals=True\<close> still returns: the handler reports \<open>e\<close>, the returned dictionary
  holds the factors and the component count, and it has neither \<^verbatim>\<open>residuals_spatial\<close> nor
  \<^verbatim>\<open>residuals_temporal\<close>.
\<close>

theorem residual_failure_is_caught:
  assumes "prepare vector rm = Inr (mean_v, centred)"
    and "decompose ext st r (new_components mean_v rm shp) centred narg
           (case mult of None \<Rightarrow> 5 | Some m \<Rightarrow> m) k = Some (Inr (c1, ev, em, st1))"
    and "residual_accounting ext summarise (assign_factors ext c1 ev em) centred = Inl e"
  shows "\<exists>c'. project ext summarise st r vector shp rm narg mult True k
                 = Some (Inr (c', st1, Some e))
             \<and> c' = (assign_factors ext c1 ev em)\<lparr>project_meta_n_components := Some (ncols ev)\<rparr>
             \<and> eig_vec c' = ev \<and> eig_mix c' = em \<and> n_components c' = ncols ev
             \<and> residuals_spatial c' = None \<and> residuals_temporal c' = None"
  using assms by (rule project_after_residual_failure)

theorem residual_failure_is_caught_witness:
  "\<exists>c'. project sample_collaborators (\<lambda>v rebuilt. Inl ValueError) (\<lambda>r. []) 0 sample_vector
           (5, 1, 2) None (Some 2) None True 1000
         = Some (Inr (c', (\<lambda>r. []), Some TypeError))
       \<and> residuals_spatial c' = None \<and> residuals_temporal c' = None"
proof -
  let ?centred = "subtract_from_rows sample_vector (column_means sample_vector)"
  let ?c = "new_components (column_means sample_vector) None (5, 1, 2)"
  obtain fr where fr: "fixed_count_path sample_collaborators ?centred 2 1000 = Inr fr"
    using fixed_count_path_defined[of sample_collaborators 2 1000 ?centred
        "\<lparr>nrows = nrows ?centred, ncols = 2, cell = (\<lambda>i j. real (i + j))\<rparr>"
        "\<lparr>nrows = ncols ?centred, ncols = 2, cell = (\<lambda>i j. real (i * (j + 1)))\<rparr>"]
    by (auto simp add: sample_collaborators_def subtract_from_rows_def sample_vector_def
        of_rows_def)
  have dec: "decompose sample_collaborators (\<lambda>r. []) 0 ?c ?centred (Some 2)
               (case None of None \<Rightarrow> 5 | Some m \<Rightarrow> m) 1000
             = Some (Inr (?c\<lparr>noise_components := Some (fixed_noise fr),
                            cutoff := Some (fixed_cutoff fr),
                            flipped := Some (fixed_flipped fr)\<rparr>,
                          fixed_eig_vec fr, fixed_eig_mix fr, (\<lambda>r. [])))"
    using fr by (simp add: decompose_def)
  from residual_failure_is_caught[OF sample_prepare dec residual_accounting_type_error]
  show ?thesis by blast
qed


section \<open>The adaptive path: what \<^verbatim>\<open>svd_eigval\<close> holds\<close>

lemma sample_search:
  "ncols v = 5 \<Longrightarrow>
     adaptive_search sample_collaborators v u 1000 5 5 0 =
       accepted \<lparr>nrows = nrows v, ncols = 5, cell = (\<lambda>i j. real (i + j))\<rparr>
         \<lparr>nrows = 5, ncols = 5, cell = (\<lambda>i j. real (i * (j + 1)))\<rparr> (replicate 5 False) 0 5 0"
  by (subst adaptive_search.simps) (simp add: sample_collaborators_def mat_T_def)

lemma sample_reduced: "reduced_n_components (replicate 5 False) = 6"
  by (simp add: reduced_n_components_def)

lemma sample_adaptive_path:
  assumes "ncols v = 5" and "fst (shape c) = 5"
  shows "\<exists>c1 ev em. adaptive_path sample_collaborators (\<lambda>r. []) 0 c v 5 1000
           = Some (Inr (c1, ev, em, (\<lambda>r. [])(0 := [6, 3, 1, 0, 0])))"
proof -
  have svd: "run_svd sample_collaborators v = Inr (v, [7, 4, 2, 1, 1])"
    by (simp add: run_svd_def sample_collaborators_def)
  have crop: "crop_excess ev em (replicate 5 False) lag 5
                = Inr \<lparr>cropped_eig_vec = ev, cropped_eig_mix = em, cropped_n_components = 5,
                       cropped_noise = replicate 5 False, cropped_lag1_full = lag\<rparr>" for ev em lag
    by (simp add: crop_excess_def sample_reduced)
  show ?thesis
    using assms
    by (simp add: adaptive_path_def svd sample_transition sample_search accepted_def crop)
qed

lemma sample_project:
  "\<exists>c'. project sample_collaborators (\<lambda>v rebuilt. Inl ValueError) (\<lambda>r. []) 0 sample_vector
           (5, 1, 2) None None None True 1000
         = Some (Inr (c', (\<lambda>r. [])(0 := [6, 3, 1, 0, 0]), Some TypeError))
       \<and> svd_eigval c' = Some 0"
proof -
  let ?centred = "subtract_from_rows sample_vector (column_means sample_vector)"
  let ?c = "new_components (column_means sample_vector) None (5, 1, 2)"
  have "ncols ?centred = 5" "fst (shape ?c) = 5"
    by (simp_all add: subtract_from_rows_def sample_vector_def of_rows_def new_components_def)
  then obtain c1 ev em where path:
    "adaptive_path sample_collaborators (\<lambda>r. []) 0 ?c ?centred 5 1000
           = Some (Inr (c1, ev, em, (\<lambda>r. [])(0 := [6, 3, 1, 0, 0])))"
    using sample_adaptive_path by blast
  then have dec: "decompose sample_collaborators (\<lambda>r. []) 0 ?c ?centred None
                    (case None of None \<Rightarrow> 5 | Some m \<Rightarrow> m) 1000
                  = Some (Inr (c1, ev, em, (\<lambda>r. [])(0 := [6, 3, 1, 0, 0])))"
    by (simp add: decompose_def)
  have "svd_eigval c1 = Some 0" using adaptive_path_fields[OF path] by blast
  with project_after_residual_failure[OF sample_prepare dec residual_accounting_type_error]
  show ?thesis by (simp add: assign_factors_def)
qed

text \<open>
  Claim C10, as amended. Only the subtraction of the minimum writes into the caller's
  array. After the adaptive path the array that \<^verbatim>\<open>svd_eigval\<close> refers to holds the
  eigenvalues of the SVD minus their minimum: not the raw eigenvalues, and not divided by
  their sum.
\<close>

theorem svd_eigval_holds_shifted_spectrum:
  assumes "project ext summarise st r vector shp rm None mult calc k
             = Some (Inr (c', st', rep))"
  shows "\<exists>mean_v centred u raw.
           prepare vector rm = Inr (mean_v, centred)
         \<and> run_svd ext centred = Inr (u, raw)
         \<and> raw \<noteq> []
         \<and> svd_eigval c' = Some r
         \<and> st' r = shift_to_zero raw"
proof -
  from assms obtain mean_v centred where prep: "prepare vector rm = Inr (mean_v, centred)"
    by (auto simp add: project_def split: sum.splits)
  from assms prep obtain c1 ev em where
    path: "adaptive_path ext st r (new_components mean_v rm shp) centred
             (case mult of None \<Rightarrow> 5 | Some m \<Rightarrow> m) k = Some (Inr (c1, ev, em, st'))"
    and fin: "c' = fst (finish_project ext summarise calc c1 centred ev em)"
    by (auto simp add: project_def decompose_def split: sum.splits option.splits prod.splits)
  from fin have "svd_eigval c' = svd_eigval c1"
    by (simp add: finish_project_keeps_svd_eigval)
  with adaptive_path_fields[OF path] prep show ?thesis by auto
qed

theorem svd_eigval_holds_shifted_spectrum_witness:
  "\<exists>c'. project sample_collaborators (\<lambda>v rebuilt. Inl ValueError) (\<lambda>r. []) 0 sample_vector
           (5, 1, 2) None None None True 1000
         = Some (Inr (c', (\<lambda>r. [])(0 := [6, 3, 1, 0, 0]), Some TypeError))
       \<and> svd_eigval c' = Some 0
       \<and> shift_to_zero [7, 4, 2, 1, 1] = [6, 3, 1, 0, 0]"
proof -
  obtain c' where run: "project sample_collaborators (\<lambda>v rebuilt. Inl ValueError) (\<lambda>r. []) 0
      sample_vector (5, 1, 2) None None None True 1000
         = Some (Inr (c', (\<lambda>r. [])(0 := [6, 3, 1, 0, 0]), Some TypeError))"
    using sample_project by blast
  from svd_eigval_holds_shifted_spectrum[OF run]
  have "svd_eigval c' = Some 0" by blast
  with run sample_shift show ?thesis by blast
qed

text \<open>
  Claim C10, as stated, fails: on the sample, with the raw eigenvalues \<open>[7, 4, 2, 1, 1]\<close>,
  the array of \<^verbatim>\<open>svd_eigval\<close> in the returned dictionary is \<open>[6, 3, 1, 0, 0]\<close>, whose sum
  is ten and not one.
\<close>

theorem svd_eigval_normalised_counterexample:
  "\<exists>c'. project sample_collaborators (\<lambda>v rebuilt. Inl ValueError) (\<lambda>r. []) 0 sample_vector
           (5, 1, 2) None None None True 1000
         = Some (Inr (c', (\<lambda>r. [])(0 := [6, 3, 1, 0, 0]), Some TypeError))
       \<and> svd_eigval c' = Some 0
       \<and> run_svd sample_collaborators
           (subtract_from_rows sample_vector (column_means sample_vector))
           = Inr (subtract_from_rows sample_vector (column_means sample_vector),
                  [7, 4, 2, 1, 1])
       \<and> sum_list [6, 3, 1, 0, 0] = (10 :: real)"
  using sample_project by (simp add: run_svd_def sample_collaborators_def)

section \<open>The post-hoc crop\<close>

lemma reduced_is_truncation:
  "reduced_n_components noise = (5 * length (filter (\<lambda>b. \<not> b) noise)) div 4"
proof -
  have count: "length noise - length (filter id noise) = length (filter (\<lambda>b. \<not> b) noise)"
    using sum_length_filter_compl[of id noise] by simp
  have "real (length (filter (\<lambda>b. \<not> b) noise)) * 1.25
          = real (5 * length (filter (\<lambda>b. \<not> b) noise)) / real 4"
    by simp
  then have "\<lfloor>real (length (filter (\<lambda>b. \<not> b) noise)) * 1.25\<rfloor>
          = int ((5 * length (filter (\<lambda>b. \<not> b) noise)) div 4)"
    by (simp only: floor_divide_of_nat_eq)
  then show ?thesis
    by (simp add: reduced_n_components_def count)
qed

lemma crop_excess_not_applied:
  "\<not> reduced_n_components noise < n \<Longrightarrow>
     crop_excess ev em noise lag n =
       Inr \<lparr>cropped_eig_vec = ev, cropped_eig_mix = em, cropped_n_components = n,
            cropped_noise = noise, cropped_lag1_full = lag\<rparr>"
  by (simp add: crop_excess_def)

lemma crop_excess_never_grows:
  "crop_excess ev em noise lag n = Inr cr \<Longrightarrow> cropped_n_components cr \<le> n"
  by (auto simp add: crop_excess_def Let_def and_then_def split: if_splits sum.splits)

text \<open>The order in which the crop keeps the components.\<close>

lemma argsort_distinct: "distinct (argsort ks)"
  by (simp add: argsort_def)

lemma argsort_sorted: "sorted (map (\<lambda>i. ks ! i) (argsort ks))"
  by (simp add: argsort_def)

lemma influence_order_descending:
  assumes "i \<le> j" and "j < length ks"
  shows "ks ! (influence_order ks ! j) \<le> ks ! (influence_order ks ! i)"
proof -
  let ?xs = "map (\<lambda>i. ks ! i) (influence_order ks)"
  have "rev ?xs = map (\<lambda>i. ks ! i) (argsort ks)"
    by (simp add: influence_order_def rev_map)
  then have "sorted (rev ?xs)" by (simp only: argsort_sorted)
  moreover have "j < length ?xs" using assms by (simp add: influence_order_def argsort_length)
  ultimately have "?xs ! j \<le> ?xs ! i" using assms(1) by (simp only: sorted_rev_nth_mono)
  then show ?thesis using assms by (simp add: influence_order_def argsort_length)
qed

lemma influence_order_facts:
  "length (influence_order ks) = length ks"
  "distinct (influence_order ks)"
  "set (influence_order ks) = {0..<length ks}"
  by (simp_all add: influence_order_def argsort_length argsort_distinct argsort_set)

lemma influence_order_nth:
  "j < length ks \<Longrightarrow> influence_order ks ! j = argsort ks ! (length ks - 1 - j)"
  by (simp add: influence_order_def rev_nth argsort_length)

lemma argsort_inside_iff: "list_all (\<lambda>j. j < m) (argsort ks) \<longleftrightarrow> length ks \<le> m"
proof
  assume inside: "list_all (\<lambda>j. j < m) (argsort ks)"
  show "length ks \<le> m"
  proof (rule ccontr)
    assume "\<not> length ks \<le> m"
    then have "m \<in> set (argsort ks)" by (simp add: argsort_set)
    with inside have "m < m" by (auto simp add: list_all_iff)
    then show False by simp
  qed
next
  assume "length ks \<le> m"
  then show "list_all (\<lambda>j. j < m) (argsort ks)"
    by (auto simp add: list_all_iff argsort_set)
qed

text \<open>
  The crop is applied to \<open>k\<close> temporal columns: it reads the columns \<open>0..<k\<close> of the spatial
  factors and the entries \<open>0..<k\<close> of the labels and of the lag values.
\<close>

lemma crop_excess_applied:
  assumes "reduced_n_components noise < n"
    and "ncols em \<le> ncols ev" and "ncols em \<le> length noise" and "ncols em \<le> length lag"
  shows "crop_excess ev em noise lag n =
       Inr \<lparr>cropped_eig_vec =
              \<lparr>nrows = nrows ev, ncols = min (reduced_n_components noise) (ncols em),
               cell = (\<lambda>i j. cell ev i (argsort (column_std em) ! (ncols em - 1 - j)))\<rparr>,
            cropped_eig_mix =
              \<lparr>nrows = nrows em, ncols = min (reduced_n_components noise) (ncols em),
               cell = (\<lambda>i j. cell em i (argsort (column_std em) ! (ncols em - 1 - j)))\<rparr>,
            cropped_n_components = reduced_n_components noise,
            cropped_noise =
              take (reduced_n_components noise)
                (map (\<lambda>j. noise ! j) (influence_order (column_std em))),
            cropped_lag1_full = map (\<lambda>j. lag ! j) (influence_order (column_std em))\<rparr>"
proof -
  have inside: "list_all (\<lambda>j. j < ncols ev) (argsort (column_std em))"
    "list_all (\<lambda>j. j < ncols em) (argsort (column_std em))"
    "list_all (\<lambda>j. j < length noise) (argsort (column_std em))"
    "list_all (\<lambda>j. j < length lag) (argsort (column_std em))"
    using assms(2-4) by (simp_all add: argsort_inside_iff column_std_length)
  show ?thesis
    using assms(1) inside
    by (simp add: crop_excess_def Let_def take_columns_defined take_entries_def and_then_simps
        reverse_columns_def first_columns_def argsort_length column_std_length
        influence_order_def rev_map)
qed

lemma crop_excess_index_error:
  assumes "reduced_n_components noise < n"
    and "\<not> (ncols em \<le> ncols ev \<and> ncols em \<le> length noise \<and> ncols em \<le> length lag)"
  shows "crop_excess ev em noise lag n = Inl IndexError"
proof -
  have "\<not> list_all (\<lambda>j. j < ncols ev) (argsort (column_std em))
      \<or> \<not> list_all (\<lambda>j. j < length noise) (argsort (column_std em))
      \<or> \<not> list_all (\<lambda>j. j < length lag) (argsort (column_std em))"
    using assms(2) by (simp add: argsort_inside_iff column_std_length)
  then show ?thesis
    using assms(1)
    by (auto simp add: crop_excess_def Let_def take_columns_def take_entries_def and_then_def
        split: sum.splits)
qed

lemma column_std_nth: "j < ncols m \<Longrightarrow> column_std m ! j = astd (column m j)"
  by (simp add: column_std_def)

text \<open>The deviation that the code sorts by is the root of the variance.\<close>

lemma astd_is_sqrt_variance: "astd xs = sqrt (variance xs)"
  by (simp add: astd_def amean_def variance_def)

lemma column_std_le_iff:
  assumes "d < ncols m" and "e < ncols m"
  shows "column_std m ! d \<le> column_std m ! e
         \<longleftrightarrow> variance (column m d) \<le> variance (column m e)"
  using assms by (simp add: column_std_nth astd_is_sqrt_variance)

lemma kept_dominates_dropped:
  assumes "j < k" and "j < length ks" and "d < length ks"
    and "d \<notin> set (take k (influence_order ks))"
  shows "ks ! d \<le> ks ! (influence_order ks ! j)"
proof -
  have "d \<in> set (influence_order ks)" using assms(3) by (simp add: influence_order_facts)
  then obtain q where q: "q < length ks" "influence_order ks ! q = d"
    by (metis in_set_conv_nth influence_order_facts(1))
  have "k \<le> q"
  proof (rule ccontr)
    assume "\<not> k \<le> q"
    then have "q < k" by simp
    then have "take k (influence_order ks) ! q = d" using q by simp
    moreover have "q < length (take k (influence_order ks))"
      using \<open>q < k\<close> q(1) by (simp add: influence_order_facts)
    ultimately have "d \<in> set (take k (influence_order ks))" by (metis nth_mem)
    with assms(4) show False by contradiction
  qed
  then have "j \<le> q" using assms(1) by simp
  then show ?thesis using influence_order_descending[of j q ks] q by simp
qed

lemma influence_order_inside:
  "j < length ks \<Longrightarrow> influence_order ks ! j < length ks"
  using influence_order_facts(1,3)[of ks] nth_mem[of j "influence_order ks"] by simp

text \<open>
  The components that the crop keeps, in the words of the specification: \<open>idx\<close> lists
  them in the order of the result.
\<close>

lemma crop_excess_result:
  assumes "reduced_n_components noise < n"
    and "ncols em \<le> ncols ev" and "ncols em \<le> length noise" and "ncols em \<le> length lag"
  shows "\<exists>cr idx. crop_excess ev em noise lag n = Inr cr
        \<and> cropped_n_components cr = reduced_n_components noise
        \<and> length idx = min (reduced_n_components noise) (ncols em)
        \<and> ncols (cropped_eig_vec cr) = length idx
        \<and> ncols (cropped_eig_mix cr) = length idx
        \<and> length (cropped_noise cr) = length idx
        \<and> nrows (cropped_eig_vec cr) = nrows ev \<and> nrows (cropped_eig_mix cr) = nrows em
        \<and> distinct idx \<and> (\<forall>d\<in>set idx. d < ncols em)
        \<and> (\<forall>j<length idx.
              column (cropped_eig_vec cr) j = column ev (idx ! j)
            \<and> column (cropped_eig_mix cr) j = column em (idx ! j)
            \<and> cropped_noise cr ! j = noise ! (idx ! j))
        \<and> (\<forall>j. Suc j < length idx \<longrightarrow>
              variance (column em (idx ! Suc j)) \<le> variance (column em (idx ! j)))
        \<and> (\<forall>d<ncols em. d \<notin> set idx \<longrightarrow>
              (\<forall>j<length idx. variance (column em d) \<le> variance (column em (idx ! j))))"
proof -
  let ?r = "reduced_n_components noise"
  let ?k = "ncols em"
  let ?ks = "column_std em"
  let ?order = "influence_order ?ks"
  let ?idx = "take ?r ?order"
  let ?cr = "\<lparr>cropped_eig_vec =
              \<lparr>nrows = nrows ev, ncols = min ?r ?k,
               cell = (\<lambda>i j. cell ev i (argsort ?ks ! (?k - 1 - j)))\<rparr>,
            cropped_eig_mix =
              \<lparr>nrows = nrows em, ncols = min ?r ?k,
               cell = (\<lambda>i j. cell em i (argsort ?ks ! (?k - 1 - j)))\<rparr>,
            cropped_n_components = ?r,
            cropped_noise = take ?r (map (\<lambda>j. noise ! j) ?order),
            cropped_lag1_full = map (\<lambda>j. lag ! j) ?order\<rparr>"
  have len: "length ?ks = ?k" by (simp add: column_std_length)
  have len_order: "length ?order = ?k" by (simp add: influence_order_facts len)
  have len_idx: "length ?idx = min ?r ?k" by (simp add: len_order min.commute)
  have idx_nth: "?idx ! j = ?order ! j" if "j < length ?idx" for j
    using that by simp
  have below: "j < ?r \<and> j < ?k" if "j < length ?idx" for j
  proof -
    from that have "j < min ?r ?k" by (simp only: len_idx)
    then show ?thesis by simp
  qed
  have inside: "?order ! j < ?k" if "j < ?k" for j
    using that influence_order_inside[of j ?ks] len by simp
  have idx_inside: "\<forall>d\<in>set ?idx. d < ?k"
  proof
    fix d assume "d \<in> set ?idx"
    then have "d \<in> set ?order" by (rule in_set_takeD)
    then show "d < ?k" by (simp add: influence_order_facts len)
  qed
  have nth: "?order ! j = argsort ?ks ! (?k - 1 - j)" if "j < ?k" for j
    using that len influence_order_nth[of j ?ks] by simp
  have columns: "column \<lparr>nrows = nrows m, ncols = min ?r ?k,
                   cell = (\<lambda>i j. cell m i (argsort ?ks ! (?k - 1 - j)))\<rparr> j
                 = column m (?idx ! j)" if "j < length ?idx" for j and m :: mat
  proof -
    have "j < ?k" using below[OF that] by simp
    from nth[OF this] idx_nth[OF that] show ?thesis by (simp add: column_def)
  qed
  have labels: "take ?r (map (\<lambda>j. noise ! j) ?order) ! j = noise ! (?idx ! j)"
    if "j < length ?idx" for j
    using that len_order by simp
  have desc: "variance (column em (?idx ! Suc j)) \<le> variance (column em (?idx ! j))"
    if "Suc j < length ?idx" for j
  proof -
    have j: "Suc j < ?k" "j < ?k" "j < length ?idx" using that below[OF that] by simp_all
    have "?ks ! (?order ! Suc j) \<le> ?ks ! (?order ! j)"
      using j(1) len influence_order_descending[of j "Suc j" ?ks] by simp
    then have "variance (column em (?order ! Suc j)) \<le> variance (column em (?order ! j))"
      using inside[OF j(1)] inside[OF j(2)] by (simp only: column_std_le_iff)
    then show ?thesis by (simp only: idx_nth[OF that] idx_nth[OF j(3)])
  qed
  have dom: "variance (column em d) \<le> variance (column em (?idx ! j))"
    if "d < ?k" "d \<notin> set ?idx" "j < length ?idx" for d j
  proof -
    have j: "j < ?r" "j < ?k" using below[OF that(3)] by simp_all
    have "?ks ! d \<le> ?ks ! (?order ! j)"
      using kept_dominates_dropped[of j ?r ?ks d] j that(1,2) len by simp
    then have "variance (column em d) \<le> variance (column em (?order ! j))"
      using that(1) inside[OF j(2)] by (simp only: column_std_le_iff)
    then show ?thesis by (simp only: idx_nth[OF that(3)])
  qed
  have "crop_excess ev em noise lag n = Inr ?cr"
    using assms by (rule crop_excess_applied)
  moreover have "cropped_n_components ?cr = ?r" by simp
  moreover note len_idx
  moreover have "ncols (cropped_eig_vec ?cr) = length ?idx"
    "ncols (cropped_eig_mix ?cr) = length ?idx"
    "length (cropped_noise ?cr) = length ?idx"
    "nrows (cropped_eig_vec ?cr) = nrows ev" "nrows (cropped_eig_mix ?cr) = nrows em"
    using len_order by (simp_all add: min.commute)
  moreover have "distinct ?idx" by (simp add: influence_order_facts)
  moreover note idx_inside
  moreover have "\<forall>j<length ?idx.
              column (cropped_eig_vec ?cr) j = column ev (?idx ! j)
            \<and> column (cropped_eig_mix ?cr) j = column em (?idx ! j)
            \<and> cropped_noise ?cr ! j = noise ! (?idx ! j)"
    using columns labels by simp
  moreover have "\<forall>j. Suc j < length ?idx \<longrightarrow>
              variance (column em (?idx ! Suc j)) \<le> variance (column em (?idx ! j))"
    using desc by blast
  moreover have "\<forall>d<?k. d \<notin> set ?idx \<longrightarrow>
              (\<forall>j<length ?idx. variance (column em d) \<le> variance (column em (?idx ! j)))"
    using dom by blast
  ultimately show ?thesis by blast
qed

text \<open>The sample factors: four components over two pixels and three frames.\<close>

lemma sample_variances:
  "variance (column (of_rows 4 [[0, 0, 0, 0], [3, 9, 0, 6], [0, 0, 0, 0]]) 0) = 2"
  "variance (column (of_rows 4 [[0, 0, 0, 0], [3, 9, 0, 6], [0, 0, 0, 0]]) 1) = 18"
  "variance (column (of_rows 4 [[0, 0, 0, 0], [3, 9, 0, 6], [0, 0, 0, 0]]) 2) = 0"
  "variance (column (of_rows 4 [[0, 0, 0, 0], [3, 9, 0, 6], [0, 0, 0, 0]]) 3) = 8"
  by (simp_all add: variance_def column_def of_rows_def upt_conv_Cons power2_eq_square)

lemma sample_columns:
  "column (of_rows 4 [[1, 2, 3, 4], [5, 6, 7, 8]]) 0 = [1, 5]"
  "column (of_rows 4 [[1, 2, 3, 4], [5, 6, 7, 8]]) 1 = [2, 6]"
  "column (of_rows 4 [[1, 2, 3, 4], [5, 6, 7, 8]]) 3 = [4, 8]"
  "column (of_rows 4 [[0, 0, 0, 0], [3, 9, 0, 6], [0, 0, 0, 0]]) 0 = [0, 3, 0]"
  "column (of_rows 4 [[0, 0, 0, 0], [3, 9, 0, 6], [0, 0, 0, 0]]) 1 = [0, 9, 0]"
  "column (of_rows 4 [[0, 0, 0, 0], [3, 9, 0, 6], [0, 0, 0, 0]]) 3 = [0, 6, 0]"
  by (simp_all add: column_def of_rows_def upt_conv_Cons)

lemma three_of_four:
  fixes V :: "nat \<Rightarrow> real"
  assumes V: "V 0 = 2" "V 1 = 18" "V 2 = 0" "V 3 = 8"
    and idx: "length idx = 3" "distinct idx" "\<forall>d\<in>set idx. d < 4"
    and desc: "\<forall>j. Suc j < length idx \<longrightarrow> V (idx ! Suc j) \<le> V (idx ! j)"
    and dom: "\<forall>d<4. d \<notin> set idx \<longrightarrow> (\<forall>j<length idx. V d \<le> V (idx ! j))"
  shows "idx = [1, 3, 0]"
proof -
  obtain a b c where abc: "idx = [a, b, c]"
    using idx(1) by (auto simp add: length_Suc_conv numeral_3_eq_3)
  have four: "x = 0 \<or> x = 1 \<or> x = 2 \<or> x = 3" if "x < 4" for x :: nat
    using that by arith
  have apart: "a \<noteq> b" "a \<noteq> c" "b \<noteq> c" using idx(2) by (simp_all add: abc)
  have order: "V b \<le> V a" "V c \<le> V b"
    using desc[rule_format, of 0] desc[rule_format, of 1] by (simp_all add: abc)
  have low: "d = a \<or> d = b \<or> d = c \<or> V d \<le> V c" if "d < 4" for d
    using dom[rule_format, of d 2] that by (auto simp add: abc)
  have large: "x = 1" if "x < 4" "18 \<le> V x" for x
    using four[OF that(1)] that(2) V by auto
  have medium: "x = 1 \<or> x = 3" if "x < 4" "8 \<le> V x" for x
    using four[OF that(1)] that(2) V by auto
  have small: "x = 2" if "x < 4" "V x \<le> 0" for x
    using four[OF that(1)] that(2) V by auto
  have inside: "a < 4" "b < 4" "c < 4" using idx(3) by (simp_all add: abc)
  have c1: "c \<noteq> 1"
  proof
    assume c: "c = 1"
    then have "18 \<le> V b" using order(2) V(2) by simp
    with inside(2) have "b = 1" by (rule large)
    with c apart(3) show False by simp
  qed
  have c3: "c \<noteq> 3"
  proof
    assume c: "c = 3"
    then have b: "8 \<le> V b" using order(2) V(4) by simp
    with inside(2) have "b = 1 \<or> b = 3" by (rule medium)
    with c apart(3) have b1: "b = 1" by simp
    then have "18 \<le> V a" using order(1) V(2) by simp
    with inside(1) have "a = 1" by (rule large)
    with b1 apart(1) show False by simp
  qed
  have c2: "c \<noteq> 2"
  proof
    assume c: "c = 2"
    have "0 = a \<or> 0 = b" using low[of 0] c V(1,3) by simp
    moreover have "1 = a \<or> 1 = b" using low[of 1] c V(2,3) by simp
    moreover have "3 = a \<or> 3 = b" using low[of 3] c V(3,4) by simp
    ultimately show False by arith
  qed
  have c: "c = 0" using four[OF inside(3)] c1 c2 c3 by simp
  have "1 = a \<or> 1 = b" using low[of 1] c V(1,2) by simp
  moreover have "3 = a \<or> 3 = b" using low[of 3] c V(1,4) by simp
  moreover have "\<not> (b = 1 \<and> a = 3)" using order(1) V(2,4) by auto
  ultimately have "a = 1 \<and> b = 3" by arith
  then show ?thesis by (simp add: abc c)
qed

text \<open>
  Claim C5, as amended. The reduced count is \<^verbatim>\<open>int(1.25 * signal_count)\<close>, the fraction
  dropped: \<open>5 * signal_count div 4\<close>. The crop is applied exactly when the reduced count
  is below the current count \<open>n\<close>. With \<open>k\<close> the number of temporal columns that the solver
  returned, the crop is an IndexError unless there are at least \<open>k\<close> spatial columns, \<open>k\<close>
  labels and \<open>k\<close> lag values. Otherwise it sets the count to the reduced count and keeps, in
  both factors and in the labels, the \<open>min reduced k\<close> components \<open>idx\<close>: they are distinct,
  their variances descend, and no component outside \<open>idx\<close> has a variance above that of a
  kept one. The count after the crop step is never above the count before.
\<close>

theorem crop_by_truncation:
  "reduced_n_components noise = (5 * length (filter (\<lambda>b. \<not> b) noise)) div 4
   \<and> (if reduced_n_components noise < n
      then (if ncols em \<le> ncols ev \<and> ncols em \<le> length noise \<and> ncols em \<le> length lag
            then \<exists>cr idx. crop_excess ev em noise lag n = Inr cr
                 \<and> cropped_n_components cr = reduced_n_components noise
                 \<and> length idx = min (reduced_n_components noise) (ncols em)
                 \<and> ncols (cropped_eig_vec cr) = length idx
                 \<and> ncols (cropped_eig_mix cr) = length idx
                 \<and> length (cropped_noise cr) = length idx
                 \<and> nrows (cropped_eig_vec cr) = nrows ev
                 \<and> nrows (cropped_eig_mix cr) = nrows em
                 \<and> distinct idx \<and> (\<forall>d\<in>set idx. d < ncols em)
                 \<and> (\<forall>j<length idx.
                       column (cropped_eig_vec cr) j = column ev (idx ! j)
                     \<and> column (cropped_eig_mix cr) j = column em (idx ! j)
                     \<and> cropped_noise cr ! j = noise ! (idx ! j))
                 \<and> (\<forall>j. Suc j < length idx \<longrightarrow>
                       variance (column em (idx ! Suc j)) \<le> variance (column em (idx ! j)))
                 \<and> (\<forall>d<ncols em. d \<notin> set idx \<longrightarrow>
                       (\<forall>j<length idx.
                          variance (column em d) \<le> variance (column em (idx ! j))))
            else crop_excess ev em noise lag n = Inl IndexError)
      else crop_excess ev em noise lag n =
             Inr \<lparr>cropped_eig_vec = ev, cropped_eig_mix = em, cropped_n_components = n,
                  cropped_noise = noise, cropped_lag1_full = lag\<rparr>)
   \<and> (\<forall>cr. crop_excess ev em noise lag n = Inr cr \<longrightarrow> cropped_n_components cr \<le> n)"
proof (intro conjI)
  show "reduced_n_components noise = (5 * length (filter (\<lambda>b. \<not> b) noise)) div 4"
    by (rule reduced_is_truncation)
  show "\<forall>cr. crop_excess ev em noise lag n = Inr cr \<longrightarrow> cropped_n_components cr \<le> n"
    using crop_excess_never_grows by blast
  show "if reduced_n_components noise < n
      then (if ncols em \<le> ncols ev \<and> ncols em \<le> length noise \<and> ncols em \<le> length lag
            then \<exists>cr idx. crop_excess ev em noise lag n = Inr cr
                 \<and> cropped_n_components cr = reduced_n_components noise
                 \<and> length idx = min (reduced_n_components noise) (ncols em)
                 \<and> ncols (cropped_eig_vec cr) = length idx
                 \<and> ncols (cropped_eig_mix cr) = length idx
                 \<and> length (cropped_noise cr) = length idx
                 \<and> nrows (cropped_eig_vec cr) = nrows ev
                 \<and> nrows (cropped_eig_mix cr) = nrows em
                 \<and> distinct idx \<and> (\<forall>d\<in>set idx. d < ncols em)
                 \<and> (\<forall>j<length idx.
                       column (cropped_eig_vec cr) j = column ev (idx ! j)
                     \<and> column (cropped_eig_mix cr) j = column em (idx ! j)
                     \<and> cropped_noise cr ! j = noise ! (idx ! j))
                 \<and> (\<forall>j. Suc j < length idx \<longrightarrow>
                       variance (column em (idx ! Suc j)) \<le> variance (column em (idx ! j)))
                 \<and> (\<forall>d<ncols em. d \<notin> set idx \<longrightarrow>
                       (\<forall>j<length idx.
                          variance (column em d) \<le> variance (column em (idx ! j))))
            else crop_excess ev em noise lag n = Inl IndexError)
      else crop_excess ev em noise lag n =
             Inr \<lparr>cropped_eig_vec = ev, cropped_eig_mix = em, cropped_n_components = n,
                  cropped_noise = noise, cropped_lag1_full = lag\<rparr>"
  proof (cases "reduced_n_components noise < n")
    case False
    then show ?thesis by (simp add: crop_excess_not_applied)
  next
    case applied: True
    show ?thesis
    proof (cases "ncols em \<le> ncols ev \<and> ncols em \<le> length noise \<and> ncols em \<le> length lag")
      case False
      show ?thesis
        unfolding if_P[OF applied] if_not_P[OF False]
        using applied False by (rule crop_excess_index_error)
    next
      case True
      then have "ncols em \<le> ncols ev" "ncols em \<le> length noise" "ncols em \<le> length lag"
        by simp_all
      from crop_excess_result[OF applied this] show ?thesis
        unfolding if_P[OF applied] if_P[OF True] .
    qed
  qed
qed

text \<open>
  On the sample factors three of four components are signal, the reduced count is
  \<open>int(3.75) = 3\<close>, and the variances of the time courses are \<open>2, 18, 0, 8\<close>: the crop keeps
  the components \<open>1, 3, 0\<close> in this order and drops component \<open>2\<close>.
\<close>

theorem crop_by_truncation_witness:
  "reduced_n_components [False, False, True, False] = 3
   \<and> (\<exists>cr. crop_excess (of_rows 4 [[1, 2, 3, 4], [5, 6, 7, 8]])
             (of_rows 4 [[0, 0, 0, 0], [3, 9, 0, 6], [0, 0, 0, 0]])
             [False, False, True, False] [0, 0, 0, 0] 4 = Inr cr
          \<and> cropped_n_components cr = 3
          \<and> ncols (cropped_eig_vec cr) = 3
          \<and> ncols (cropped_eig_mix cr) = 3
          \<and> cropped_noise cr = [False, False, False]
          \<and> column (cropped_eig_vec cr) 0 = [2, 6]
          \<and> column (cropped_eig_vec cr) 1 = [4, 8]
          \<and> column (cropped_eig_vec cr) 2 = [1, 5]
          \<and> column (cropped_eig_mix cr) 0 = [0, 9, 0]
          \<and> column (cropped_eig_mix cr) 1 = [0, 6, 0]
          \<and> column (cropped_eig_mix cr) 2 = [0, 3, 0])"
proof -
  let ?E = "of_rows 4 [[1, 2, 3, 4], [5, 6, 7, 8]]"
  let ?M = "of_rows 4 [[0, 0, 0, 0], [3, 9, 0, 6], [0, 0, 0, 0]]"
  let ?noise = "[False, False, True, False]"
  have three: "reduced_n_components ?noise = 3"
    by (simp add: reduced_is_truncation)
  have shapes: "ncols ?E = 4" "ncols ?M = 4" by (simp_all add: of_rows_def)
  have "\<exists>cr idx. crop_excess ?E ?M ?noise [0, 0, 0, 0] 4 = Inr cr
                 \<and> cropped_n_components cr = 3
                 \<and> length idx = 3
                 \<and> ncols (cropped_eig_vec cr) = length idx
                 \<and> ncols (cropped_eig_mix cr) = length idx
                 \<and> length (cropped_noise cr) = length idx
                 \<and> distinct idx \<and> (\<forall>d\<in>set idx. d < 4)
                 \<and> (\<forall>j<length idx.
                       column (cropped_eig_vec cr) j = column ?E (idx ! j)
                     \<and> column (cropped_eig_mix cr) j = column ?M (idx ! j)
                     \<and> cropped_noise cr ! j = ?noise ! (idx ! j))
                 \<and> (\<forall>j. Suc j < length idx \<longrightarrow>
                       variance (column ?M (idx ! Suc j)) \<le> variance (column ?M (idx ! j)))
                 \<and> (\<forall>d<4. d \<notin> set idx \<longrightarrow>
                       (\<forall>j<length idx.
                          variance (column ?M d) \<le> variance (column ?M (idx ! j))))"
    using crop_by_truncation[of ?noise 4 ?M ?E "[0, 0, 0, 0]"]
    unfolding three shapes by (simp del: One_nat_def) blast
  then obtain cr idx where cr: "crop_excess ?E ?M ?noise [0, 0, 0, 0] 4 = Inr cr"
      "cropped_n_components cr = 3"
      "ncols (cropped_eig_vec cr) = length idx" "ncols (cropped_eig_mix cr) = length idx"
      "length (cropped_noise cr) = length idx"
    and idx: "length idx = 3" "distinct idx" "\<forall>d\<in>set idx. d < 4"
    and cols: "\<forall>j<length idx.
                       column (cropped_eig_vec cr) j = column ?E (idx ! j)
                     \<and> column (cropped_eig_mix cr) j = column ?M (idx ! j)
                     \<and> cropped_noise cr ! j = ?noise ! (idx ! j)"
    and desc: "\<forall>j. Suc j < length idx \<longrightarrow>
                       variance (column ?M (idx ! Suc j)) \<le> variance (column ?M (idx ! j))"
    and dom: "\<forall>d<4. d \<notin> set idx \<longrightarrow>
                       (\<forall>j<length idx.
                          variance (column ?M d) \<le> variance (column ?M (idx ! j)))"
    by blast
  have order: "idx = [1, 3, 0]"
    using sample_variances idx desc dom
    by (rule three_of_four[where V = "\<lambda>d. variance (column ?M d)"])
  have kept: "column (cropped_eig_vec cr) 0 = [2, 6]" "column (cropped_eig_vec cr) 1 = [4, 8]"
    "column (cropped_eig_vec cr) 2 = [1, 5]"
    "column (cropped_eig_mix cr) 0 = [0, 9, 0]" "column (cropped_eig_mix cr) 1 = [0, 6, 0]"
    "column (cropped_eig_mix cr) 2 = [0, 3, 0]"
    "cropped_noise cr ! 0 = False" "cropped_noise cr ! 1 = False" "cropped_noise cr ! 2 = False"
    using cols[rule_format, of 0] cols[rule_format, of 1] cols[rule_format, of 2]
    by (simp_all add: order sample_columns del: One_nat_def)
  obtain a b c where abc: "cropped_noise cr = [a, b, c]"
    using cr(5) idx(1) by (auto simp add: length_Suc_conv numeral_3_eq_3)
  have labels: "cropped_noise cr = [False, False, False]"
    using kept(7-9) by (simp add: abc)
  from three cr idx(1) kept(1-6) labels show ?thesis by simp
qed

text \<open>
  Claim C5, as stated, fails on the count: for three signal components among four the code
  computes \<open>int(3.75) = 3\<close> and crops four components to three, where rounding gives
  four and no crop. It also fails on the cut: when the solver returned five components for
  a count of seven and all five are signal, the reduced count is \<open>int(6.25) = 6\<close>; the crop
  is applied, the count becomes six, and the factors keep their five columns.
\<close>

theorem crop_rounding_counterexample:
  "reduced_n_components [False, False, True, False] = 3
   \<and> rounded_n_components [False, False, True, False] = 4
   \<and> (\<exists>cr. crop_excess (of_rows 4 [[1, 2, 3, 4], [5, 6, 7, 8]])
             (of_rows 4 [[0, 0, 0, 0], [3, 9, 0, 6], [0, 0, 0, 0]])
             [False, False, True, False] [0, 0, 0, 0] 4 = Inr cr
          \<and> cropped_n_components cr = 3)
   \<and> reduced_n_components (replicate 5 False) = 6
   \<and> (\<exists>cr. crop_excess (of_rows 5 [[1, 2, 3, 4, 5]]) (of_rows 5 [[1, 2, 3, 4, 5], [0, 4, 0, 8, 7]])
             (replicate 5 False) (replicate 5 0) 7 = Inr cr
          \<and> cropped_n_components cr = 6
          \<and> ncols (cropped_eig_vec cr) = 5
          \<and> ncols (cropped_eig_mix cr) = 5
          \<and> length (cropped_noise cr) = 5)"
proof -
  have three: "reduced_n_components [False, False, True, False] = 3"
    by (simp add: reduced_is_truncation)
  have four: "rounded_n_components [False, False, True, False] = 4"
    by (simp add: rounded_n_components_def round_def)
  have six: "reduced_n_components (replicate 5 False) = 6"
    by (simp add: reduced_is_truncation)
  have "crop_excess (of_rows 4 [[1, 2, 3, 4], [5, 6, 7, 8]])
             (of_rows 4 [[0, 0, 0, 0], [3, 9, 0, 6], [0, 0, 0, 0]])
             [False, False, True, False] [0, 0, 0, 0] 4 = Inr cr
        \<Longrightarrow> cropped_n_components cr = 3" for cr
    using crop_excess_applied[of "[False, False, True, False]" 4
        "of_rows 4 [[0, 0, 0, 0], [3, 9, 0, 6], [0, 0, 0, 0]]"
        "of_rows 4 [[1, 2, 3, 4], [5, 6, 7, 8]]" "[0, 0, 0, 0]"]
    by (simp add: three of_rows_def)
  moreover have "\<exists>cr. crop_excess (of_rows 4 [[1, 2, 3, 4], [5, 6, 7, 8]])
             (of_rows 4 [[0, 0, 0, 0], [3, 9, 0, 6], [0, 0, 0, 0]])
             [False, False, True, False] [0, 0, 0, 0] 4 = Inr cr"
    using crop_excess_applied[of "[False, False, True, False]" 4
        "of_rows 4 [[0, 0, 0, 0], [3, 9, 0, 6], [0, 0, 0, 0]]"
        "of_rows 4 [[1, 2, 3, 4], [5, 6, 7, 8]]" "[0, 0, 0, 0]"]
    by (simp add: three of_rows_def)
  ultimately have first: "\<exists>cr. crop_excess (of_rows 4 [[1, 2, 3, 4], [5, 6, 7, 8]])
             (of_rows 4 [[0, 0, 0, 0], [3, 9, 0, 6], [0, 0, 0, 0]])
             [False, False, True, False] [0, 0, 0, 0] 4 = Inr cr
          \<and> cropped_n_components cr = 3"
    by blast
  let ?E5 = "of_rows 5 [[1, 2, 3, 4, 5]]"
  let ?M5 = "of_rows 5 [[1, 2, 3, 4, 5], [0, 4, 0, 8, 7]]"
  have shapes: "ncols ?E5 = 5" "ncols ?M5 = 5" by (simp_all add: of_rows_def)
  have applied: "reduced_n_components (replicate 5 False) < 7" by (simp only: six)
  have fits: "ncols ?M5 \<le> ncols ?E5" "ncols ?M5 \<le> length (replicate 5 False)"
    "ncols ?M5 \<le> length (replicate 5 (0::real))"
    by (simp_all add: shapes)
  note crop = crop_excess_applied[OF applied fits]
  have "cropped_n_components cr = 6 \<and> ncols (cropped_eig_vec cr) = 5
        \<and> ncols (cropped_eig_mix cr) = 5 \<and> length (cropped_noise cr) = 5"
    if "crop_excess ?E5 ?M5 (replicate 5 False) (replicate 5 0) 7 = Inr cr" for cr
  proof -
    from that crop have cr: "cr = \<lparr>cropped_eig_vec =
              \<lparr>nrows = nrows ?E5, ncols = min (reduced_n_components (replicate 5 False)) (ncols ?M5),
               cell = (\<lambda>i j. cell ?E5 i (argsort (column_std ?M5) ! (ncols ?M5 - 1 - j)))\<rparr>,
            cropped_eig_mix =
              \<lparr>nrows = nrows ?M5, ncols = min (reduced_n_components (replicate 5 False)) (ncols ?M5),
               cell = (\<lambda>i j. cell ?M5 i (argsort (column_std ?M5) ! (ncols ?M5 - 1 - j)))\<rparr>,
            cropped_n_components = reduced_n_components (replicate 5 False),
            cropped_noise =
              take (reduced_n_components (replicate 5 False))
                (map (\<lambda>j. replicate 5 False ! j) (influence_order (column_std ?M5))),
            cropped_lag1_full = map (\<lambda>j. replicate 5 0 ! j) (influence_order (column_std ?M5))\<rparr>"
      by simp
    show ?thesis
      unfolding cr
      by (simp add: six shapes influence_order_facts column_std_length)
  qed
  moreover have "\<exists>cr. crop_excess ?E5 ?M5 (replicate 5 False) (replicate 5 0) 7 = Inr cr"
    using crop by blast
  ultimately have second: "\<exists>cr. crop_excess ?E5 ?M5 (replicate 5 False) (replicate 5 0) 7 = Inr cr
          \<and> cropped_n_components cr = 6
          \<and> ncols (cropped_eig_vec cr) = 5
          \<and> ncols (cropped_eig_mix cr) = 5
          \<and> length (cropped_noise cr) = 5"
    by blast
  from three four six first second show ?thesis by blast
qed
end
